theory Spec2Isabelle
  imports Main
begin

section \<open>Python strings\<close>

text \<open>
  A Python \<open>str\<close> is a sequence of Unicode code points, so a string is a list of
  code points (natural numbers). \<open>py\<close> turns an ASCII literal into such a string.
\<close>

type_synonym codepoint = nat
type_synonym pystr = "codepoint list"

definition cp :: "char \<Rightarrow> codepoint" where
  "cp c = of_char c"

definition py :: "string \<Rightarrow> pystr" where
  "py s = map cp s"

text \<open>Exceptions deriving from \<open>Exception\<close>, each with the text \<open>str(e)\<close> gives.\<close>

datatype exn =
    ValueError pystr
  | AttributeError pystr
  | IndexError pystr
  | LibraryError pystr

fun message :: "exn \<Rightarrow> pystr" where
  "message (ValueError m) = m"
| "message (AttributeError m) = m"
| "message (IndexError m) = m"
| "message (LibraryError m) = m"

text \<open>Sequencing of steps that may raise: the first exception ends the block.\<close>

definition and_then :: "exn + 'a \<Rightarrow> ('a \<Rightarrow> exn + 'b) \<Rightarrow> exn + 'b" where
  "and_then m f = (case m of Inl e \<Rightarrow> Inl e | Inr x \<Rightarrow> f x)"

text \<open>Slice bounds: a negative index counts from the end and is clipped at 0.\<close>

definition slice_ix :: "pystr \<Rightarrow> int \<Rightarrow> nat" where
  "slice_ix s i = (if i < 0 then nat (int (length s) + i) else nat i)"

definition slice_to :: "pystr \<Rightarrow> int \<Rightarrow> pystr" where
  "slice_to s i = take (slice_ix s i) s"

definition slice_from :: "pystr \<Rightarrow> int \<Rightarrow> pystr" where
  "slice_from s i = drop (slice_ix s i) s"

definition slice :: "pystr \<Rightarrow> int \<Rightarrow> int \<Rightarrow> pystr" where
  "slice s i j = drop (slice_ix s i) (take (slice_ix s j) s)"

definition str_startswith :: "pystr \<Rightarrow> pystr \<Rightarrow> bool" where
  "str_startswith s p = (take (length p) s = p)"

text \<open>\<open>s.find(c, start)\<close> and \<open>s.rfind(c)\<close> for a one-character \<open>c\<close>: an index, or -1.\<close>

definition str_find :: "pystr \<Rightarrow> codepoint \<Rightarrow> int \<Rightarrow> int" where
  "str_find s c start =
     (let k = slice_ix s start
      in if c \<in> set (drop k s)
         then int (k + length (takeWhile (\<lambda>x. x \<noteq> c) (drop k s)))
         else - 1)"

definition str_rfind :: "pystr \<Rightarrow> codepoint \<Rightarrow> int" where
  "str_rfind s c =
     (if c \<in> set s
      then int (length s) - 1 - int (length (takeWhile (\<lambda>x. x \<noteq> c) (rev s)))
      else - 1)"

text \<open>
  \<open>s.replace(old, new)\<close>: the non-overlapping occurrences of \<open>old\<close>, found from the
  left, are replaced. An empty \<open>old\<close> matches before every character and at the end.
\<close>

function str_replace :: "pystr \<Rightarrow> pystr \<Rightarrow> pystr \<Rightarrow> pystr" where
  "str_replace s old new =
     (if old = [] then new @ concat (map (\<lambda>c. c # new) s)
      else if s = [] then []
      else if str_startswith s old then new @ str_replace (drop (length old) s) old new
      else hd s # str_replace (tl s) old new)"
  by pat_completeness auto
termination
  by (relation "measure (\<lambda>(s, old, new). length s)") auto

text \<open>\<open>s.split(sep)\<close> for a one-character separator: always at least one piece.\<close>

fun str_split :: "pystr \<Rightarrow> codepoint \<Rightarrow> pystr list" where
  "str_split [] sep = [[]]"
| "str_split (c # cs) sep =
     (if c = sep then [] # str_split cs sep
      else (case str_split cs sep of
              [] \<Rightarrow> [[c]]
            | p # ps \<Rightarrow> (c # p) # ps))"

text \<open>\<open>s.split(sep, 1)\<close> where \<open>sep\<close> occurs in \<open>s\<close>: the text before and after the first one.\<close>

definition str_split1 :: "pystr \<Rightarrow> codepoint \<Rightarrow> pystr \<times> pystr" where
  "str_split1 s sep =
     (takeWhile (\<lambda>x. x \<noteq> sep) s, drop 1 (dropWhile (\<lambda>x. x \<noteq> sep) s))"

definition str_partition :: "pystr \<Rightarrow> codepoint \<Rightarrow> pystr \<times> pystr \<times> pystr" where
  "str_partition s sep =
     (if sep \<in> set s
      then (takeWhile (\<lambda>x. x \<noteq> sep) s, [sep], drop 1 (dropWhile (\<lambda>x. x \<noteq> sep) s))
      else (s, [], []))"

definition str_lstrip :: "pystr \<Rightarrow> pystr \<Rightarrow> pystr" where
  "str_lstrip s chars = dropWhile (\<lambda>c. c \<in> set chars) s"

definition str_rstrip :: "pystr \<Rightarrow> pystr \<Rightarrow> pystr" where
  "str_rstrip s chars = rev (dropWhile (\<lambda>c. c \<in> set chars) (rev s))"

text \<open>
  \<open>str.isspace\<close> per character, as in CPython's table of whitespace code points;
  \<open>s.strip()\<close> removes such characters at both ends.
\<close>

definition is_space :: "codepoint \<Rightarrow> bool" where
  "is_space c =
     ((9 \<le> c \<and> c \<le> 13) \<or> (28 \<le> c \<and> c \<le> 32) \<or> c = 133 \<or> c = 160 \<or> c = 5760
      \<or> (8192 \<le> c \<and> c \<le> 8202) \<or> c = 8232 \<or> c = 8233 \<or> c = 8239 \<or> c = 8287
      \<or> c = 12288)"

definition str_strip :: "pystr \<Rightarrow> pystr" where
  "str_strip s = rev (dropWhile is_space (rev (dropWhile is_space s)))"

definition is_ascii :: "codepoint \<Rightarrow> bool" where
  "is_ascii c = (c < 128)"

definition is_ascii_upper :: "codepoint \<Rightarrow> bool" where
  "is_ascii_upper c = (65 \<le> c \<and> c \<le> 90)"

definition is_ascii_lower :: "codepoint \<Rightarrow> bool" where
  "is_ascii_lower c = (97 \<le> c \<and> c \<le> 122)"

definition is_ascii_digit :: "codepoint \<Rightarrow> bool" where
  "is_ascii_digit c = (48 \<le> c \<and> c \<le> 57)"

definition is_ascii_alpha :: "codepoint \<Rightarrow> bool" where
  "is_ascii_alpha c = (is_ascii_upper c \<or> is_ascii_lower c)"

text \<open>
  \<open>s.lower()\<close> on the strings the program lowers, which are ASCII (a URL scheme and the
  literals PNG, SVG, JPEG): the letters A-Z move to a-z, everything else stays.
\<close>

definition str_lower :: "pystr \<Rightarrow> pystr" where
  "str_lower s = map (\<lambda>c. if is_ascii_upper c then c + 32 else c) s"

section \<open>The standard library behind \<open>urlparse\<close> and \<open>re\<close>\<close>

text \<open>
  Three tables of the Python runtime are not part of the repository and are taken as
  parameters: the Unicode classification behind \<open>str.isalnum\<close> (used on non-ASCII
  code points only), NFKC normalisation, and \<open>ipaddress.ip_address\<close>.
\<close>

datatype ip_version = IPv4Address | IPv6Address

record pylib =
  unicode_isalnum :: "codepoint \<Rightarrow> bool"
  unicode_nfkc :: "pystr \<Rightarrow> pystr"
  ip_address :: "pystr \<Rightarrow> exn + ip_version"

text \<open>
  An excerpt of these tables for evaluating on concrete inputs. It agrees with CPython on
  strings whose non-ASCII code points are the Latin-1 letters U+00C0 to U+00FF (all
  alphanumeric except the signs U+00D7 and U+00F7, all unchanged by NFKC) and on
  bracketed hosts that are not IP literals.
\<close>

definition latin1_lib :: pylib where
  "latin1_lib =
     \<lparr> unicode_isalnum = (\<lambda>c. 192 \<le> c \<and> c \<le> 255 \<and> c \<noteq> 215 \<and> c \<noteq> 247),
       unicode_nfkc = (\<lambda>s. s),
       ip_address = (\<lambda>h. Inl (ValueError (py ''does not appear to be an IPv4 or IPv6 address''))) \<rparr>"

text \<open>
  \<open>\w\<close> in a \<open>str\<close> pattern: the alphanumeric characters of Unicode and the underscore.
\<close>

definition is_alnum :: "pylib \<Rightarrow> codepoint \<Rightarrow> bool" where
  "is_alnum L c =
     (if is_ascii c then is_ascii_alpha c \<or> is_ascii_digit c else unicode_isalnum L c)"

definition is_word :: "pylib \<Rightarrow> codepoint \<Rightarrow> bool" where
  "is_word L c = (is_alnum L c \<or> c = cp CHR ''_'')"

section \<open>\<open>urllib.parse\<close> (CPython 3.11)\<close>

definition uses_params :: "pystr list" where
  "uses_params = map py ['''', ''ftp'', ''hdl'', ''prospero'', ''http'', ''imap'',
     ''https'', ''shttp'', ''rtsp'', ''rtsps'', ''rtspu'', ''sip'',
     ''sips'', ''mms'', ''sftp'', ''tel'']"

definition scheme_chars :: pystr where
  "scheme_chars = py (''abcdefghijklmnopqrstuvwxyz'' @ ''ABCDEFGHIJKLMNOPQRSTUVWXYZ''
     @ ''0123456789'' @ ''+-.'')"

definition WHATWG_C0_CONTROL_OR_SPACE :: pystr where
  "WHATWG_C0_CONTROL_OR_SPACE = [0..<33]"

definition UNSAFE_URL_BYTES_TO_REMOVE :: "pystr list" where
  "UNSAFE_URL_BYTES_TO_REMOVE = [[9], [13], [10]]"

record split_result =
  sr_scheme :: pystr
  sr_netloc :: pystr
  sr_path :: pystr
  sr_query :: pystr
  sr_fragment :: pystr

record parse_result =
  scheme :: pystr
  netloc :: pystr
  path :: pystr
  params :: pystr
  query :: pystr
  fragment :: pystr

definition splitparams :: "pystr \<Rightarrow> pystr \<times> pystr" where
  "splitparams url =
     (if cp CHR ''/'' \<in> set url then
        (let i = str_find url (cp CHR '';'') (str_rfind url (cp CHR ''/''))
         in if i < 0 then (url, []) else (slice_to url i, slice_from url (i + 1)))
      else
        (let i = str_find url (cp CHR '';'') 0
         in (slice_to url i, slice_from url (i + 1))))"

definition splitnetloc :: "pystr \<Rightarrow> int \<Rightarrow> pystr \<times> pystr" where
  "splitnetloc url start =
     (let delim = foldl (\<lambda>d c. let wdelim = str_find url c start
                                in if wdelim \<ge> 0 then min d wdelim else d)
                        (int (length url)) (py ''/?#'')
      in (slice url start delim, slice_from url delim))"

definition checknetloc :: "pylib \<Rightarrow> pystr \<Rightarrow> exn + unit" where
  "checknetloc L nl =
     (if nl = [] \<or> list_all is_ascii nl then Inr ()
      else
        (let n = str_replace nl (py ''@'') [];
             n = str_replace n (py '':'') [];
             n = str_replace n (py ''#'') [];
             n = str_replace n (py ''?'') [];
             netloc2 = unicode_nfkc L n
         in if n = netloc2 then Inr ()
            else if list_ex (\<lambda>c. c \<in> set netloc2) (py ''/?#@:'')
            then Inl (ValueError (py ''netloc ''  @ [39] @ nl @ [39] @
                        py '' contains invalid characters under NFKC normalization''))
            else Inr ()))"

text \<open>
  \<open>re.match(r"\Av[a-fA-F0-9]+\..+\Z", hostname)\<close>: a \<open>v\<close>, one or more hexadecimal
  digits, a dot, and one or more characters none of which is a newline.
\<close>

definition is_hex_digit :: "codepoint \<Rightarrow> bool" where
  "is_hex_digit c = (is_ascii_digit c \<or> (97 \<le> c \<and> c \<le> 102) \<or> (65 \<le> c \<and> c \<le> 70))"

definition ipvfuture_match :: "pystr \<Rightarrow> bool" where
  "ipvfuture_match h =
     (case h of
        [] \<Rightarrow> False
      | c # rest \<Rightarrow>
          c = cp CHR ''v'' \<and> takeWhile is_hex_digit rest \<noteq> [] \<and>
          (case dropWhile is_hex_digit rest of
             [] \<Rightarrow> False
           | d # tail \<Rightarrow> d = cp CHR ''.'' \<and> tail \<noteq> [] \<and> 10 \<notin> set tail))"

definition check_bracketed_host :: "pylib \<Rightarrow> pystr \<Rightarrow> exn + unit" where
  "check_bracketed_host L hostname =
     (if str_startswith hostname (py ''v'') then
        (if \<not> ipvfuture_match hostname
         then Inl (ValueError (py ''IPvFuture address is invalid''))
         else Inr ())
      else
        and_then (ip_address L hostname) (\<lambda>ip.
          if ip = IPv4Address
          then Inl (ValueError (py ''An IPv4 address cannot be in brackets''))
          else Inr ()))"

definition urlsplit :: "pylib \<Rightarrow> pystr \<Rightarrow> exn + split_result" where
  "urlsplit L url0 =
     (let url = str_lstrip url0 WHATWG_C0_CONTROL_OR_SPACE;
          url = foldl (\<lambda>u b. str_replace u b []) url UNSAFE_URL_BYTES_TO_REMOVE;
          i = str_find url (cp CHR '':'') 0;
          (scheme, url) =
            (if i > 0 \<and> (case url of [] \<Rightarrow> False | c # _ \<Rightarrow> is_ascii c \<and> is_ascii_alpha c)
                \<and> list_all (\<lambda>c. c \<in> set scheme_chars) (slice_to url i)
             then (str_lower (slice_to url i), slice_from url (i + 1))
             else ([], url))
      in and_then
           (if slice_to url 2 = py ''//'' then
              (let (nl, url) = splitnetloc url 2
               in if (cp CHR ''['' \<in> set nl \<and> cp CHR '']'' \<notin> set nl) \<or>
                     (cp CHR '']'' \<in> set nl \<and> cp CHR ''['' \<notin> set nl)
                  then Inl (ValueError (py ''Invalid IPv6 URL''))
                  else and_then
                    (if cp CHR ''['' \<in> set nl \<and> cp CHR '']'' \<in> set nl
                     then check_bracketed_host L
                            (fst (str_partition (snd (snd (str_partition nl (cp CHR ''['')))) (cp CHR '']'')))
                     else Inr ())
                    (\<lambda>_. Inr (nl, url)))
            else Inr ([], url))
           (\<lambda>(nl, url).
              let (url, fragment) =
                    (if cp CHR ''#'' \<in> set url then str_split1 url (cp CHR ''#'') else (url, []));
                  (url, query) =
                    (if cp CHR ''?'' \<in> set url then str_split1 url (cp CHR ''?'') else (url, []))
              in and_then (checknetloc L nl) (\<lambda>_.
                   Inr \<lparr> sr_scheme = scheme, sr_netloc = nl, sr_path = url,
                         sr_query = query, sr_fragment = fragment \<rparr>)))"

definition urlparse :: "pylib \<Rightarrow> pystr \<Rightarrow> exn + parse_result" where
  "urlparse L url0 =
     and_then (urlsplit L url0) (\<lambda>r.
       let (url, ps) =
             (if sr_scheme r \<in> set uses_params \<and> cp CHR '';'' \<in> set (sr_path r)
              then splitparams (sr_path r)
              else (sr_path r, []))
       in Inr \<lparr> scheme = sr_scheme r, netloc = sr_netloc r, path = url, params = ps,
                 query = sr_query r, fragment = sr_fragment r \<rparr>)"

section \<open>\<open>get_domain_name\<close>\<close>

text \<open>
  Lines 20 to 26 of the function: the scheme is prepended, the URL parsed, the host (or
  the path) taken, every \<open>www.\<close> removed and the text before the first colon kept.
  \<open>split(':')[0]\<close> raises \<open>IndexError\<close> on an empty list.
\<close>

definition domain_of :: "pylib \<Rightarrow> pystr \<Rightarrow> exn + pystr" where
  "domain_of L url0 =
     (let url = (if \<not> (str_startswith url0 (py ''http://'') \<or> str_startswith url0 (py ''https://''))
                 then py ''https://'' @ url0 else url0)
      in and_then (urlparse L url) (\<lambda>parsed.
           let domain = (if netloc parsed \<noteq> [] then netloc parsed else path parsed);
               domain = str_replace domain (py ''www.'') []
           in (case str_split domain (cp CHR '':'') of
                 [] \<Rightarrow> Inl (IndexError (py ''list index out of range''))
               | d # _ \<Rightarrow> Inr d)))"

text \<open>\<open>re.sub(r'[^\w\-.]', '_', domain)\<close>: what is kept, and the substitution.\<close>

definition kept :: "pylib \<Rightarrow> codepoint \<Rightarrow> bool" where
  "kept L c = (is_word L c \<or> c = cp CHR ''-'' \<or> c = cp CHR ''.'')"

definition re_sub :: "pylib \<Rightarrow> pystr \<Rightarrow> pystr" where
  "re_sub L domain = map (\<lambda>c. if kept L c then c else cp CHR ''_'') domain"

text \<open>The body of the \<open>try\<close> block, and the function with its \<open>except Exception\<close>.\<close>

definition get_domain_name_try :: "pylib \<Rightarrow> pystr \<Rightarrow> exn + pystr" where
  "get_domain_name_try L url =
     and_then (domain_of L url) (\<lambda>domain.
       let safe_domain = re_sub L domain;
           safe_domain = str_rstrip safe_domain (py ''.'')
       in Inr (if safe_domain \<noteq> [] then safe_domain else py ''qrcode''))"

definition get_domain_name :: "pylib \<Rightarrow> pystr \<Rightarrow> pystr" where
  "get_domain_name L url =
     (case get_domain_name_try L url of
        Inl e \<Rightarrow> py ''qrcode''
      | Inr name \<Rightarrow> name)"

section \<open>Request bodies\<close>

text \<open>
  What \<open>request.json\<close> yields: a parsed JSON value. A float is kept as the text
  \<open>repr\<close> prints for it; the program never computes with one. An object is a list of
  its members, looked up by key.
\<close>

datatype json =
    JNull
  | JBool bool
  | JInt int
  | JFloat pystr
  | JStr pystr
  | JArr "json list"
  | JObj "(pystr \<times> json) list"

definition type_name :: "json \<Rightarrow> pystr" where
  "type_name v =
     (case v of
        JNull \<Rightarrow> py ''NoneType''
      | JBool _ \<Rightarrow> py ''bool''
      | JInt _ \<Rightarrow> py ''int''
      | JFloat _ \<Rightarrow> py ''float''
      | JStr _ \<Rightarrow> py ''str''
      | JArr _ \<Rightarrow> py ''list''
      | JObj _ \<Rightarrow> py ''dict'')"

definition no_attribute :: "json \<Rightarrow> string \<Rightarrow> exn" where
  "no_attribute v attr =
     AttributeError ([39] @ type_name v @ [39] @ py '' object has no attribute '' @
                     [39] @ py attr @ [39])"

text \<open>\<open>data.get(key, default)\<close>: only a dict has the method.\<close>

definition dict_get :: "json \<Rightarrow> pystr \<Rightarrow> json \<Rightarrow> exn + json" where
  "dict_get data key dflt =
     (case data of
        JObj members \<Rightarrow> Inr (case map_of members key of Some v \<Rightarrow> v | None \<Rightarrow> dflt)
      | _ \<Rightarrow> Inl (no_attribute data ''get''))"

text \<open>\<open>v.strip()\<close>: only a string has the method.\<close>

definition strip :: "json \<Rightarrow> exn + pystr" where
  "strip v =
     (case v of
        JStr s \<Rightarrow> Inr (str_strip s)
      | _ \<Rightarrow> Inl (no_attribute v ''strip''))"

text \<open>
  The text an f-string puts for \<open>{theme}\<close>: a string as it is, \<open>None\<close>, \<open>True\<close> and
  \<open>False\<close> by name. For numbers, lists and dicts the text is the runtime's \<open>repr\<close>,
  a parameter.
\<close>

definition format_value :: "(json \<Rightarrow> pystr) \<Rightarrow> json \<Rightarrow> pystr" where
  "format_value repr v =
     (case v of
        JStr s \<Rightarrow> s
      | JNull \<Rightarrow> py ''None''
      | JBool b \<Rightarrow> (if b then py ''True'' else py ''False'')
      | _ \<Rightarrow> repr v)"

section \<open>The QR and imaging libraries\<close>

text \<open>
  The calls the program makes on the \<open>qrcode\<close> and \<open>PIL\<close> objects of one request, with
  their arguments. The libraries are outside the repository: whether a call raises, and
  the bytes the final \<open>save\<close> writes, are given by the calls made so far (the last one
  being the current call). \<open>base64.b64encode\<close> (with its \<open>decode\<close>) and \<open>repr\<close> are
  taken from the runtime in the same record.
\<close>

datatype error_correction = ERROR_CORRECT_L | ERROR_CORRECT_M | ERROR_CORRECT_Q | ERROR_CORRECT_H

datatype module_drawer = RoundedModuleDrawer | CircleModuleDrawer | GappedSquareModuleDrawer

type_synonym rgb = "nat \<times> nat \<times> nat"

datatype color_mask =
    SolidFillColorMask (back_color: rgb) (front_color: rgb)
  | RadialGradiantColorMask (back_color: rgb) (center_color: rgb) (edge_color: rgb)

datatype image_args =
    StyledPilImage module_drawer color_mask
  | SvgPathImage
  | Fill_back pystr pystr

datatype lib_call =
    QRCode (version: nat) (error_correction: error_correction) (box_size: nat) (border: nat)
  | Add_data pystr
  | Make (fit: bool)
  | Make_image image_args
  | Convert pystr
  | Save "pystr option"

type_synonym bytes = "char list"

record qrlib =
  raises :: "lib_call list \<Rightarrow> exn option"
  saved_bytes :: "lib_call list \<Rightarrow> bytes"
  b64encode :: "bytes \<Rightarrow> pystr"
  py_repr :: "json \<Rightarrow> pystr"

text \<open>
  A computation that calls the libraries: it extends the list of calls made and either
  raises or returns.
\<close>

type_synonym 'a io = "lib_call list \<Rightarrow> (exn + 'a) \<times> lib_call list"

definition io_return :: "'a \<Rightarrow> 'a io" where
  "io_return x calls = (Inr x, calls)"

definition io_bind :: "'a io \<Rightarrow> ('a \<Rightarrow> 'b io) \<Rightarrow> 'b io" where
  "io_bind m f calls =
     (case m calls of
        (Inl e, calls') \<Rightarrow> (Inl e, calls')
      | (Inr x, calls') \<Rightarrow> f x calls')"

definition io_lift :: "exn + 'a \<Rightarrow> 'a io" where
  "io_lift r calls = (r, calls)"

definition lib :: "qrlib \<Rightarrow> lib_call \<Rightarrow> unit io" where
  "lib Q c calls =
     (let calls' = calls @ [c]
      in (case raises Q calls' of Some e \<Rightarrow> Inl e | None \<Rightarrow> Inr (), calls'))"

section \<open>\<open>create_styled_qr\<close> and \<open>generate_qr_code\<close>\<close>

definition create_styled_qr :: "qrlib \<Rightarrow> pystr \<Rightarrow> json \<Rightarrow> unit io" where
  "create_styled_qr Q url theme =
     io_bind (lib Q (QRCode 1 ERROR_CORRECT_H 10 4)) (\<lambda>_.
     io_bind (lib Q (Add_data url)) (\<lambda>_.
     io_bind (lib Q (Make True)) (\<lambda>_.
       if theme = JStr (py ''matrix'') then
         lib Q (Make_image (StyledPilImage RoundedModuleDrawer
                  (SolidFillColorMask (0, 0, 0) (0, 255, 65))))
       else if theme = JStr (py ''cyberpunk'') then
         lib Q (Make_image (StyledPilImage CircleModuleDrawer
                  (RadialGradiantColorMask (10, 10, 35) (255, 0, 255) (0, 255, 255))))
       else if theme = JStr (py ''terminal'') then
         lib Q (Make_image (StyledPilImage GappedSquareModuleDrawer
                  (SolidFillColorMask (30, 30, 30) (0, 255, 0))))
       else
         lib Q (Make_image (Fill_back (py ''black'') (py ''white''))))))"

text \<open>
  The function returns the byte stream, the file name and the image format. The first
  part chooses the rendering, the second saves the image.
\<close>

definition generate_qr_code ::
  "pylib \<Rightarrow> qrlib \<Rightarrow> pystr \<Rightarrow> json \<Rightarrow> json \<Rightarrow> (bytes \<times> pystr \<times> pystr) io" where
  "generate_qr_code L Q url output_format theme =
     (let domain = get_domain_name L url
      in io_bind
           (if output_format = JStr (py ''styled'') then
              io_bind (create_styled_qr Q url theme) (\<lambda>_.
                io_return (domain @ py ''_'' @ format_value (py_repr Q) theme @ py ''.png'',
                           py ''PNG''))
            else if output_format = JStr (py ''svg'') then
              io_bind (lib Q (QRCode 1 ERROR_CORRECT_L 10 4)) (\<lambda>_.
              io_bind (lib Q (Add_data url)) (\<lambda>_.
              io_bind (lib Q (Make True)) (\<lambda>_.
              io_bind (lib Q (Make_image SvgPathImage)) (\<lambda>_.
                io_return (domain @ py ''.svg'', py ''SVG'')))))
            else
              io_bind (lib Q (QRCode 1 ERROR_CORRECT_L 10 4)) (\<lambda>_.
              io_bind (lib Q (Add_data url)) (\<lambda>_.
              io_bind (lib Q (Make True)) (\<lambda>_.
              io_bind (lib Q (Make_image (Fill_back (py ''black'') (py ''white'')))) (\<lambda>_.
                if output_format = JStr (py ''jpeg'') then
                  io_bind (lib Q (Convert (py ''RGB''))) (\<lambda>_.
                    io_return (domain @ py ''.jpeg'', py ''JPEG''))
                else
                  io_return (domain @ py ''.png'', py ''PNG''))))))
           (\<lambda>(filename, img_format).
              io_bind (if img_format = py ''SVG'' then lib Q (Save None)
                       else lib Q (Save (Some img_format))) (\<lambda>_.
                (\<lambda>calls. (Inr (saved_bytes Q calls, filename, img_format), calls)))))"

section \<open>The handlers\<close>

text \<open>
  A response is what \<open>jsonify\<close> with a status gives, or what \<open>send_file\<close> gives: the
  bytes, the mimetype and the download name of an attachment. A handler takes what
  \<open>request.json\<close> evaluates to (it may raise) and returns its response with the library
  calls it made.
\<close>

datatype response =
    Jsonify json nat
  | Send_file bytes pystr pystr

definition generate :: "pylib \<Rightarrow> qrlib \<Rightarrow> exn + json \<Rightarrow> response \<times> lib_call list" where
  "generate L Q request_json =
     (case
        io_bind (io_lift request_json) (\<lambda>data.
        io_bind (io_lift (and_then (dict_get data (py ''url'') (JStr [])) strip)) (\<lambda>url.
        io_bind (io_lift (dict_get data (py ''format'') (JStr (py ''png'')))) (\<lambda>output_format.
        io_bind (io_lift (dict_get data (py ''theme'') JNull)) (\<lambda>theme.
          if url = [] then
            io_return (Jsonify (JObj [(py ''error'', JStr (py ''URL is required''))]) 400)
          else
            io_bind (generate_qr_code L Q url output_format theme)
              (\<lambda>(img_io, filename, img_format).
                 let img_base64 = b64encode Q img_io;
                     data_uri =
                       (if img_format = py ''SVG''
                        then py ''data:image/svg+xml;base64,'' @ img_base64
                        else py ''data:image/'' @ str_lower img_format @ py '';base64,''
                             @ img_base64)
                 in io_return
                      (Jsonify (JObj [(py ''success'', JBool True),
                                      (py ''image'', JStr data_uri),
                                      (py ''filename'', JStr filename)]) 200)))))) []
      of
        (Inl e, calls) \<Rightarrow> (Jsonify (JObj [(py ''error'', JStr (message e))]) 500, calls)
      | (Inr r, calls) \<Rightarrow> (r, calls))"

definition download :: "pylib \<Rightarrow> qrlib \<Rightarrow> exn + json \<Rightarrow> response \<times> lib_call list" where
  "download L Q request_json =
     (case
        io_bind (io_lift request_json) (\<lambda>data.
        io_bind (io_lift (and_then (dict_get data (py ''url'') (JStr [])) strip)) (\<lambda>url.
        io_bind (io_lift (dict_get data (py ''format'') (JStr (py ''png'')))) (\<lambda>output_format.
        io_bind (io_lift (dict_get data (py ''theme'') JNull)) (\<lambda>theme.
          if url = [] then
            io_return (Jsonify (JObj [(py ''error'', JStr (py ''URL is required''))]) 400)
          else
            io_bind (generate_qr_code L Q url output_format theme)
              (\<lambda>(img_io, filename, img_format).
                 let mimetype =
                       (if img_format = py ''SVG'' then py ''image/svg+xml''
                        else py ''image/'' @ str_lower img_format)
                 in io_return (Send_file img_io mimetype filename)))))) []
      of
        (Inl e, calls) \<Rightarrow> (Jsonify (JObj [(py ''error'', JStr (message e))]) 500, calls)
      | (Inr r, calls) \<Rightarrow> (r, calls))"

text \<open>
  Two libraries for evaluating on concrete inputs: one whose calls never raise, and one
  whose \<open>make\<close> raises (as it does when the data does not fit any symbol version).
\<close>

definition quiet_lib :: qrlib where
  "quiet_lib =
     \<lparr> raises = (\<lambda>calls. None),
       saved_bytes = (\<lambda>calls. ''image''),
       b64encode = (\<lambda>bs. py ''aW1hZ2U=''),
       py_repr = (\<lambda>v. py ''?'') \<rparr>"

definition overflow_lib :: qrlib where
  "overflow_lib =
     \<lparr> raises = (\<lambda>calls. if calls \<noteq> [] \<and> last calls = Make True
                           then Some (LibraryError (py ''data overflow'')) else None),
       saved_bytes = (\<lambda>calls. ''image''),
       b64encode = (\<lambda>bs. py ''aW1hZ2U=''),
       py_repr = (\<lambda>v. py ''?'') \<rparr>"

text \<open>
  The set of characters the specification names for the file name, \<open>[A-Za-z0-9_.-]\<close>,
  to compare with what \<open>re_sub\<close> keeps.
\<close>

definition ascii_safe :: "codepoint \<Rightarrow> bool" where
  "ascii_safe c =
     (is_ascii_alpha c \<or> is_ascii_digit c \<or> c = cp CHR ''_'' \<or> c = cp CHR ''.''
      \<or> c = cp CHR ''-'')"

section \<open>Lemmas on strings and on \<open>get_domain_name\<close>\<close>

lemma rstrip_decomp:
  "\<exists>ys. s = str_rstrip s chars @ ys \<and> set ys \<subseteq> set chars"
proof -
  let ?P = "\<lambda>c. c \<in> set chars"
  have "s = str_rstrip s chars @ rev (takeWhile ?P (rev s))"
    unfolding str_rstrip_def
    by (metis rev_append rev_rev_ident takeWhile_dropWhile_id)
  moreover have "set (rev (takeWhile ?P (rev s))) \<subseteq> set chars"
    by (auto dest: set_takeWhileD)
  ultimately show ?thesis by blast
qed

lemma set_rstrip: "set (str_rstrip s chars) \<subseteq> set s"
  using rstrip_decomp[of s chars] by (metis set_append Un_upper1)

lemma rstrip_last:
  "str_rstrip s chars \<noteq> [] \<Longrightarrow> last (str_rstrip s chars) \<notin> set chars"
  unfolding str_rstrip_def
  by (metis dropWhile_eq_Nil_conv hd_dropWhile last_rev rev_is_Nil_conv)

lemma rstrip_Nil: "(str_rstrip s chars = []) = (set s \<subseteq> set chars)"
  by (auto simp: str_rstrip_def dropWhile_eq_Nil_conv)

lemma str_strip_Nil: "str_strip [] = []"
  by (simp add: str_strip_def)

lemma kept_underscore: "kept L (cp CHR ''_'')"
  by (simp add: kept_def is_word_def)

lemma set_re_sub: "c \<in> set (re_sub L d) \<Longrightarrow> kept L c"
  by (auto simp: re_sub_def kept_underscore)

lemma re_sub_dot: "(if kept L c then c else cp CHR ''_'') = cp CHR ''.'' \<longleftrightarrow> c = cp CHR ''.''"
  by (simp add: kept_def cp_def)

lemma set_map_subset_single: "(set (map f xs) \<subseteq> {a}) = (\<forall>x \<in> set xs. f x = a)"
  by auto

lemma re_sub_all_dots:
  "(set (re_sub L d) \<subseteq> set (py ''.'')) = (\<forall>c \<in> set d. c = cp CHR ''.'')"
proof -
  have "set (py ''.'') = {cp CHR ''.''}"
    by (simp add: py_def)
  then show ?thesis
    unfolding re_sub_def by (simp only: set_map_subset_single re_sub_dot)
qed

lemma kept_ascii: "kept L c \<Longrightarrow> is_ascii c \<Longrightarrow> ascii_safe c"
  by (auto simp: kept_def is_word_def is_alnum_def ascii_safe_def)

lemma get_domain_name_cases:
  "get_domain_name L url =
     (case domain_of L url of
        Inl e \<Rightarrow> py ''qrcode''
      | Inr d \<Rightarrow> (if str_rstrip (re_sub L d) (py ''.'') \<noteq> []
                 then str_rstrip (re_sub L d) (py ''.'')
                 else py ''qrcode''))"
  by (simp add: get_domain_name_def get_domain_name_try_def and_then_def Let_def
      split: sum.splits)

lemma get_domain_name_kept:
  "get_domain_name L url = py ''qrcode'' \<or>
   (get_domain_name L url \<noteq> [] \<and> (\<forall>c \<in> set (get_domain_name L url). kept L c))"
proof (cases "domain_of L url")
  case (Inl e)
  then show ?thesis by (simp add: get_domain_name_cases)
next
  case (Inr d)
  let ?r = "str_rstrip (re_sub L d) (py ''.'')"
  show ?thesis
  proof (cases "?r = []")
    case True
    with Inr show ?thesis by (simp add: get_domain_name_cases)
  next
    case False
    have "\<forall>c \<in> set ?r. kept L c"
      using set_rstrip[of "re_sub L d" "py ''.''"] set_re_sub[of _ L d] by blast
    with False Inr show ?thesis
      by (simp add: get_domain_name_cases)
  qed
qed

section \<open>Claims on \<open>get_domain_name\<close>\<close>

text \<open>
  C1. \<open>get_domain_name\<close> is total: every exception of its body is a value \<open>Inl e\<close> of
  \<open>get_domain_name_try\<close> and is turned into the fallback, so every string has a result.
  The result is \<open>qrcode\<close>, or it is non-empty and made of word characters (\<open>\w\<close>), dots
  and hyphens only. The empty string gives \<open>qrcode\<close>.
\<close>

theorem get_domain_name_total:
  "(get_domain_name L url = py ''qrcode'' \<or>
      (get_domain_name L url \<noteq> [] \<and>
       (\<forall>c \<in> set (get_domain_name L url).
          is_word L c \<or> c = cp CHR ''-'' \<or> c = cp CHR ''.'')))
   \<and> ((\<exists>e. get_domain_name_try L url = Inl e) \<longrightarrow> get_domain_name L url = py ''qrcode'')
   \<and> get_domain_name L [] = py ''qrcode''"
proof (intro conjI)
  show "get_domain_name L url = py ''qrcode'' \<or>
      (get_domain_name L url \<noteq> [] \<and>
       (\<forall>c \<in> set (get_domain_name L url).
          is_word L c \<or> c = cp CHR ''-'' \<or> c = cp CHR ''.''))"
    using get_domain_name_kept[of L url] by (simp add: kept_def)
next
  show "(\<exists>e. get_domain_name_try L url = Inl e) \<longrightarrow> get_domain_name L url = py ''qrcode''"
    by (auto simp: get_domain_name_def)
next
  show "get_domain_name L [] = py ''qrcode''"
    by code_simp
qed

theorem get_domain_name_total_witness:
  "get_domain_name latin1_lib (py ''my site.org/x'') = py ''my_site.org''
   \<and> list_all (\<lambda>c. is_word latin1_lib c \<or> c = cp CHR ''-'' \<or> c = cp CHR ''.'')
        (py ''my_site.org'')
   \<and> get_domain_name_try latin1_lib (py ''http://[::1'') = Inl (ValueError (py ''Invalid IPv6 URL''))
   \<and> get_domain_name latin1_lib (py ''http://[::1'') = py ''qrcode''"
proof -
  have a: "get_domain_name latin1_lib (py ''my site.org/x'') = py ''my_site.org''"
    by code_simp
  have b: "py ''my_site.org'' \<noteq> py ''qrcode''" "py ''my_site.org'' \<noteq> []"
    by code_simp+
  have c: "get_domain_name_try latin1_lib (py ''http://[::1'') =
             Inl (ValueError (py ''Invalid IPv6 URL''))"
    by code_simp
  from get_domain_name_total[of latin1_lib "py ''my site.org/x''"] a b
  have "\<forall>c \<in> set (py ''my_site.org'').
          is_word latin1_lib c \<or> c = cp CHR ''-'' \<or> c = cp CHR ''.''"
    by simp
  moreover from get_domain_name_total[of latin1_lib "py ''http://[::1''"] c
  have "get_domain_name latin1_lib (py ''http://[::1'') = py ''qrcode''"
    by blast
  ultimately show ?thesis using a c by (simp add: list_all_iff)
qed

text \<open>
  C2. The example of the specification holds: the leading \<open>www.\<close> and the port of
  \<open>https://www.Example.com:8080/path\<close> are removed. But \<open>replace\<close> removes every
  \<open>www.\<close>, also one that is not the leading label: the host \<open>awww.example.com\<close>
  becomes \<open>aexample.com\<close>, which is not the domain name of the URL.
\<close>

theorem www_removed_everywhere:
  "get_domain_name L (py ''https://www.Example.com:8080/path'') = py ''Example.com''
   \<and> get_domain_name L (py ''https://awww.example.com/path'') = py ''aexample.com''"
  by code_simp

text \<open>
  C3, as the code has it. Let \<open>d\<close> be the host after \<open>www.\<close> and the port are removed.
  If \<open>d\<close> has dots only (or is empty) the result is the fallback. Otherwise the result
  is \<open>d\<close> with every character replaced by \<open>_\<close> that is neither a word character of
  Python's \<open>\w\<close> (an ASCII letter or digit, the underscore, or a non-ASCII character
  that Unicode classifies as alphanumeric) nor a hyphen nor a dot, and with the trailing
  dots cut off afterwards: what is cut off are dots, and the result is not empty and
  does not end with a dot. Every ASCII character of the result lies in
  \<open>[A-Za-z0-9_.-]\<close>.
\<close>

theorem re_sub_then_rstrip:
  assumes dom: "domain_of L url = Inr d"
  shows "(let name = get_domain_name L url in
          if (\<forall>c \<in> set d. c = cp CHR ''.'') then name = py ''qrcode''
          else
            name \<noteq> [] \<and> last name \<noteq> cp CHR ''.''
            \<and> length name \<le> length d
            \<and> (\<forall>i < length name.
                  name ! i = (if is_word L (d ! i) \<or> d ! i = cp CHR ''-'' \<or> d ! i = cp CHR ''.''
                              then d ! i else cp CHR ''_''))
            \<and> (\<forall>i. length name \<le> i \<and> i < length d \<longrightarrow> d ! i = cp CHR ''.'')
            \<and> (\<forall>c \<in> set name. is_ascii c \<longrightarrow> ascii_safe c))"
proof (cases "\<forall>c \<in> set d. c = cp CHR ''.''")
  case True
  then have "str_rstrip (re_sub L d) (py ''.'') = []"
    by (simp only: rstrip_Nil re_sub_all_dots)
  with dom have "get_domain_name L url = py ''qrcode''"
    by (simp add: get_domain_name_cases)
  with True show ?thesis
    by (simp add: Let_def)
next
  case False
  define f where "f = (\<lambda>c. if kept L c then c else cp CHR ''_'')"
  define r where "r = str_rstrip (re_sub L d) (py ''.'')"
  define m where "m = re_sub L d"
  from False have nonempty: "r \<noteq> []"
    unfolding r_def by (simp only: rstrip_Nil re_sub_all_dots) simp
  with dom have name: "get_domain_name L url = r"
    by (simp add: get_domain_name_cases r_def)
  from nonempty have "last r \<notin> set (py ''.'')"
    unfolding r_def by (rule rstrip_last)
  then have nodot: "last r \<noteq> cp CHR ''.''"
    by (simp add: py_def)
  obtain ys where ys: "m = r @ ys" and dots: "set ys \<subseteq> set (py ''.'')"
    using rstrip_decomp[of "re_sub L d" "py ''.''"] unfolding r_def m_def by blast
  have len: "length m = length d"
    by (simp add: m_def re_sub_def)
  have m_nth: "m ! i = f (d ! i)" if "i < length d" for i
    using that by (simp add: m_def re_sub_def f_def)
  from ys len have sum: "length d = length r + length ys"
    by simp
  then have le: "length r \<le> length d"
    by simp
  have pointwise: "r ! i = f (d ! i)" if "i < length r" for i
  proof -
    from that ys have "m ! i = r ! i" by (simp add: nth_append)
    moreover from that le have "m ! i = f (d ! i)" by (simp add: m_nth)
    ultimately show ?thesis by simp
  qed
  have cut: "d ! i = cp CHR ''.''" if "length r \<le> i" and "i < length d" for i
  proof -
    from that sum have "i - length r < length ys" by arith
    then have "ys ! (i - length r) \<in> set ys" by simp
    with dots have "ys ! (i - length r) = cp CHR ''.''" by (auto simp: py_def)
    moreover from that ys have "m ! i = ys ! (i - length r)"
      by (simp add: nth_append)
    moreover from that have "m ! i = f (d ! i)" by (simp add: m_nth)
    ultimately have "f (d ! i) = cp CHR ''.''" by simp
    then show ?thesis by (simp add: f_def cp_def split: if_splits)
  qed
  have ascii: "ascii_safe c" if "c \<in> set r" and "is_ascii c" for c
    using that set_rstrip[of "re_sub L d" "py ''.''"] set_re_sub[of c L d] kept_ascii[of L c]
    unfolding r_def by blast
  from nonempty nodot le pointwise cut ascii
  have "r \<noteq> [] \<and> last r \<noteq> cp CHR ''.'' \<and> length r \<le> length d
      \<and> (\<forall>i < length r. r ! i = (if is_word L (d ! i) \<or> d ! i = cp CHR ''-'' \<or> d ! i = cp CHR ''.''
                                   then d ! i else cp CHR ''_''))
      \<and> (\<forall>i. length r \<le> i \<and> i < length d \<longrightarrow> d ! i = cp CHR ''.'')
      \<and> (\<forall>c \<in> set r. is_ascii c \<longrightarrow> ascii_safe c)"
    unfolding f_def kept_def by blast
  then show ?thesis
    unfolding name Let_def if_not_P[OF False] .
qed

theorem re_sub_then_rstrip_witness:
  "domain_of latin1_lib (py ''my site.org.'') = Inr (py ''my site.org.'')
   \<and> get_domain_name latin1_lib (py ''my site.org.'') = py ''my_site.org''
   \<and> last (py ''my_site.org'') \<noteq> cp CHR ''.''
   \<and> py ''my_site.org'' ! 2 = cp CHR ''_''
   \<and> py ''my site.org.'' ! 11 = cp CHR ''.''
   \<and> list_all ascii_safe (py ''my_site.org'')
   \<and> domain_of latin1_lib (py ''...'') = Inr (py ''...'')
   \<and> get_domain_name latin1_lib (py ''...'') = py ''qrcode''"
proof -
  have d: "domain_of latin1_lib (py ''my site.org.'') = Inr (py ''my site.org.'')"
    by code_simp
  have r: "get_domain_name latin1_lib (py ''my site.org.'') = py ''my_site.org''"
    by code_simp
  have mixed: "\<not> (\<forall>c \<in> set (py ''my site.org.''). c = cp CHR ''.'')"
    by (simp add: py_def cp_def)
  note inst = re_sub_then_rstrip[OF d, unfolded r Let_def if_not_P[OF mixed]]
  have len: "length (py ''my_site.org'') = 11" "length (py ''my site.org.'') = 12"
    by (simp_all add: py_def)
  from inst have l: "last (py ''my_site.org'') \<noteq> cp CHR ''.''"
    by (elim conjE)
  from inst have "\<forall>i < length (py ''my_site.org'').
      py ''my_site.org'' ! i =
        (if is_word latin1_lib (py ''my site.org.'' ! i)
            \<or> py ''my site.org.'' ! i = cp CHR ''-''
            \<or> py ''my site.org.'' ! i = cp CHR ''.''
         then py ''my site.org.'' ! i else cp CHR ''_'')"
    by (elim conjE)
  then have "2 < length (py ''my_site.org'') \<longrightarrow> py ''my_site.org'' ! 2 =
        (if is_word latin1_lib (py ''my site.org.'' ! 2)
            \<or> py ''my site.org.'' ! 2 = cp CHR ''-''
            \<or> py ''my site.org.'' ! 2 = cp CHR ''.''
         then py ''my site.org.'' ! 2 else cp CHR ''_'')"
    by (rule spec)
  then have a: "py ''my_site.org'' ! 2 = cp CHR ''_''"
    by (simp add: py_def cp_def)
  from inst have "\<forall>i. length (py ''my_site.org'') \<le> i \<and> i < length (py ''my site.org.'')
      \<longrightarrow> py ''my site.org.'' ! i = cp CHR ''.''"
    by (elim conjE)
  then have "length (py ''my_site.org'') \<le> 11 \<and> 11 < length (py ''my site.org.'')
      \<longrightarrow> py ''my site.org.'' ! 11 = cp CHR ''.''"
    by (rule spec)
  then have b: "py ''my site.org.'' ! 11 = cp CHR ''.''"
    by (simp add: len)
  have "list_all is_ascii (py ''my_site.org'')"
    by code_simp
  moreover from inst have "\<forall>c \<in> set (py ''my_site.org''). is_ascii c \<longrightarrow> ascii_safe c"
    by (elim conjE)
  ultimately have c: "list_all ascii_safe (py ''my_site.org'')"
    by (simp only: list_all_iff) blast
  have d2: "domain_of latin1_lib (py ''...'') = Inr (py ''...'')"
    by code_simp
  have dots: "\<forall>c \<in> set (py ''...''). c = cp CHR ''.''"
    by (simp add: py_def)
  note e = re_sub_then_rstrip[OF d2, unfolded Let_def if_P[OF dots]]
  from a b c d r l d2 e show ?thesis by simp
qed

text \<open>
  C3 as stated fails: the character U+00E9 of \<open>caf\<close>U+00E9\<open>.com\<close> is outside
  \<open>[A-Za-z0-9_.-]\<close> and is in the result, since \<open>\w\<close> matches it.
\<close>

theorem non_ascii_letter_survives:
  "get_domain_name latin1_lib (py ''caf'' @ [233] @ py ''.com'') = py ''caf'' @ [233] @ py ''.com''
   \<and> \<not> ascii_safe 233"
  by code_simp


section \<open>Lemmas on the library calls and the handlers\<close>

lemma format_names:
  "py ''styled'' \<noteq> py ''svg''" "py ''styled'' \<noteq> py ''jpeg''" "py ''svg'' \<noteq> py ''jpeg''"
  "py ''svg'' \<noteq> py ''styled''" "py ''jpeg'' \<noteq> py ''styled''" "py ''jpeg'' \<noteq> py ''svg''"
  "py ''png'' \<noteq> py ''styled''" "py ''png'' \<noteq> py ''svg''" "py ''png'' \<noteq> py ''jpeg''"
  "py ''PNG'' \<noteq> py ''SVG''" "py ''JPEG'' \<noteq> py ''SVG''"
  "str_lower (py ''PNG'') = py ''png''" "str_lower (py ''JPEG'') = py ''jpeg''"
  by (simp_all add: py_def cp_def str_lower_def is_ascii_upper_def)

lemma lib_step:
  "lib Q c calls =
     (case raises Q (calls @ [c]) of Some e \<Rightarrow> (Inl e, calls @ [c]) | None \<Rightarrow> (Inr (), calls @ [c]))"
  by (simp add: lib_def Let_def split: option.splits)

lemma io_bind_lib:
  "io_bind (lib Q c) f calls =
     (case raises Q (calls @ [c]) of Some e \<Rightarrow> (Inl e, calls @ [c]) | None \<Rightarrow> f () (calls @ [c]))"
  by (simp add: io_bind_def lib_step split: option.splits)

lemma io_bind_return: "io_bind (io_return x) f calls = f x calls"
  by (simp add: io_bind_def io_return_def)

lemma io_bind_assoc: "io_bind (io_bind m f) g = io_bind m (\<lambda>x. io_bind (f x) g)"
  by (auto simp: io_bind_def fun_eq_iff split: prod.splits sum.splits)

lemma gen_png:
  assumes "output_format \<noteq> JStr (py ''styled'')" "output_format \<noteq> JStr (py ''svg'')"
    "output_format \<noteq> JStr (py ''jpeg'')"
  shows "generate_qr_code L Q url output_format theme [] =
    (let c1 = QRCode 1 ERROR_CORRECT_L 10 4; c2 = Add_data url; c3 = Make True;
         c4 = Make_image (Fill_back (py ''black'') (py ''white'')); c5 = Save (Some (py ''PNG''))
     in case raises Q [c1] of Some e \<Rightarrow> (Inl e, [c1]) | None \<Rightarrow>
       (case raises Q [c1, c2] of Some e \<Rightarrow> (Inl e, [c1, c2]) | None \<Rightarrow>
       (case raises Q [c1, c2, c3] of Some e \<Rightarrow> (Inl e, [c1, c2, c3]) | None \<Rightarrow>
       (case raises Q [c1, c2, c3, c4] of Some e \<Rightarrow> (Inl e, [c1, c2, c3, c4]) | None \<Rightarrow>
       (case raises Q [c1, c2, c3, c4, c5] of Some e \<Rightarrow> (Inl e, [c1, c2, c3, c4, c5]) | None \<Rightarrow>
          (Inr (saved_bytes Q [c1, c2, c3, c4, c5], get_domain_name L url @ py ''.png'', py ''PNG''),
           [c1, c2, c3, c4, c5]))))))"
  using assms
  by (simp add: generate_qr_code_def Let_def io_bind_assoc io_bind_lib io_bind_return format_names
      split: option.splits)


lemma gen_jpeg:
  "generate_qr_code L Q url (JStr (py ''jpeg'')) theme [] =
    (let c1 = QRCode 1 ERROR_CORRECT_L 10 4; c2 = Add_data url; c3 = Make True;
         c4 = Make_image (Fill_back (py ''black'') (py ''white'')); c5 = Convert (py ''RGB'');
         c6 = Save (Some (py ''JPEG''))
     in case raises Q [c1] of Some e \<Rightarrow> (Inl e, [c1]) | None \<Rightarrow>
       (case raises Q [c1, c2] of Some e \<Rightarrow> (Inl e, [c1, c2]) | None \<Rightarrow>
       (case raises Q [c1, c2, c3] of Some e \<Rightarrow> (Inl e, [c1, c2, c3]) | None \<Rightarrow>
       (case raises Q [c1, c2, c3, c4] of Some e \<Rightarrow> (Inl e, [c1, c2, c3, c4]) | None \<Rightarrow>
       (case raises Q [c1, c2, c3, c4, c5] of Some e \<Rightarrow> (Inl e, [c1, c2, c3, c4, c5]) | None \<Rightarrow>
       (case raises Q [c1, c2, c3, c4, c5, c6] of Some e \<Rightarrow> (Inl e, [c1, c2, c3, c4, c5, c6]) | None \<Rightarrow>
          (Inr (saved_bytes Q [c1, c2, c3, c4, c5, c6], get_domain_name L url @ py ''.jpeg'', py ''JPEG''),
           [c1, c2, c3, c4, c5, c6])))))))"
  by (simp add: generate_qr_code_def Let_def io_bind_assoc io_bind_lib io_bind_return format_names
      split: option.splits)

lemma gen_svg:
  "generate_qr_code L Q url (JStr (py ''svg'')) theme [] =
    (let c1 = QRCode 1 ERROR_CORRECT_L 10 4; c2 = Add_data url; c3 = Make True;
         c4 = Make_image SvgPathImage; c5 = Save None
     in case raises Q [c1] of Some e \<Rightarrow> (Inl e, [c1]) | None \<Rightarrow>
       (case raises Q [c1, c2] of Some e \<Rightarrow> (Inl e, [c1, c2]) | None \<Rightarrow>
       (case raises Q [c1, c2, c3] of Some e \<Rightarrow> (Inl e, [c1, c2, c3]) | None \<Rightarrow>
       (case raises Q [c1, c2, c3, c4] of Some e \<Rightarrow> (Inl e, [c1, c2, c3, c4]) | None \<Rightarrow>
       (case raises Q [c1, c2, c3, c4, c5] of Some e \<Rightarrow> (Inl e, [c1, c2, c3, c4, c5]) | None \<Rightarrow>
          (Inr (saved_bytes Q [c1, c2, c3, c4, c5], get_domain_name L url @ py ''.svg'', py ''SVG''),
           [c1, c2, c3, c4, c5]))))))"
  by (simp add: generate_qr_code_def Let_def io_bind_assoc io_bind_lib io_bind_return format_names
      split: option.splits)

lemma gen_styled:
  "generate_qr_code L Q url (JStr (py ''styled'')) theme [] =
    (let c1 = QRCode 1 ERROR_CORRECT_H 10 4; c2 = Add_data url; c3 = Make True;
         c4 = Make_image
               (if theme = JStr (py ''matrix'') then
                  StyledPilImage RoundedModuleDrawer (SolidFillColorMask (0, 0, 0) (0, 255, 65))
                else if theme = JStr (py ''cyberpunk'') then
                  StyledPilImage CircleModuleDrawer
                    (RadialGradiantColorMask (10, 10, 35) (255, 0, 255) (0, 255, 255))
                else if theme = JStr (py ''terminal'') then
                  StyledPilImage GappedSquareModuleDrawer
                    (SolidFillColorMask (30, 30, 30) (0, 255, 0))
                else Fill_back (py ''black'') (py ''white''));
         c5 = Save (Some (py ''PNG''))
     in case raises Q [c1] of Some e \<Rightarrow> (Inl e, [c1]) | None \<Rightarrow>
       (case raises Q [c1, c2] of Some e \<Rightarrow> (Inl e, [c1, c2]) | None \<Rightarrow>
       (case raises Q [c1, c2, c3] of Some e \<Rightarrow> (Inl e, [c1, c2, c3]) | None \<Rightarrow>
       (case raises Q [c1, c2, c3, c4] of Some e \<Rightarrow> (Inl e, [c1, c2, c3, c4]) | None \<Rightarrow>
       (case raises Q [c1, c2, c3, c4, c5] of Some e \<Rightarrow> (Inl e, [c1, c2, c3, c4, c5]) | None \<Rightarrow>
          (Inr (saved_bytes Q [c1, c2, c3, c4, c5],
                get_domain_name L url @ py ''_'' @ format_value (py_repr Q) theme @ py ''.png'',
                py ''PNG''),
           [c1, c2, c3, c4, c5]))))))"
proof -
  define img where "img =
    (if theme = JStr (py ''matrix'') then
       StyledPilImage RoundedModuleDrawer (SolidFillColorMask (0, 0, 0) (0, 255, 65))
     else if theme = JStr (py ''cyberpunk'') then
       StyledPilImage CircleModuleDrawer
         (RadialGradiantColorMask (10, 10, 35) (255, 0, 255) (0, 255, 255))
     else if theme = JStr (py ''terminal'') then
       StyledPilImage GappedSquareModuleDrawer (SolidFillColorMask (30, 30, 30) (0, 255, 0))
     else Fill_back (py ''black'') (py ''white''))"
  have styled: "create_styled_qr Q url theme =
      io_bind (lib Q (QRCode 1 ERROR_CORRECT_H 10 4)) (\<lambda>_.
      io_bind (lib Q (Add_data url)) (\<lambda>_.
      io_bind (lib Q (Make True)) (\<lambda>_. lib Q (Make_image img))))"
    by (simp add: create_styled_qr_def img_def)
  have "generate_qr_code L Q url (JStr (py ''styled'')) theme [] =
    (let c1 = QRCode 1 ERROR_CORRECT_H 10 4; c2 = Add_data url; c3 = Make True;
         c4 = Make_image img; c5 = Save (Some (py ''PNG''))
     in case raises Q [c1] of Some e \<Rightarrow> (Inl e, [c1]) | None \<Rightarrow>
       (case raises Q [c1, c2] of Some e \<Rightarrow> (Inl e, [c1, c2]) | None \<Rightarrow>
       (case raises Q [c1, c2, c3] of Some e \<Rightarrow> (Inl e, [c1, c2, c3]) | None \<Rightarrow>
       (case raises Q [c1, c2, c3, c4] of Some e \<Rightarrow> (Inl e, [c1, c2, c3, c4]) | None \<Rightarrow>
       (case raises Q [c1, c2, c3, c4, c5] of Some e \<Rightarrow> (Inl e, [c1, c2, c3, c4, c5]) | None \<Rightarrow>
          (Inr (saved_bytes Q [c1, c2, c3, c4, c5],
                get_domain_name L url @ py ''_'' @ format_value (py_repr Q) theme @ py ''.png'',
                py ''PNG''),
           [c1, c2, c3, c4, c5]))))))"
    by (simp add: generate_qr_code_def styled Let_def io_bind_assoc io_bind_lib io_bind_return
        lib_step format_names split: option.splits)
  then show ?thesis
    by (simp only: img_def)
qed

lemma generate_run:
  assumes "dict_get data (py ''url'') (JStr []) = Inr (JStr s)" and "str_strip s \<noteq> []"
    and "dict_get data (py ''format'') (JStr (py ''png'')) = Inr output_format"
    and "dict_get data (py ''theme'') JNull = Inr theme"
  shows "generate L Q (Inr data) =
    (case generate_qr_code L Q (str_strip s) output_format theme [] of
       (Inl e, calls) \<Rightarrow> (Jsonify (JObj [(py ''error'', JStr (message e))]) 500, calls)
     | (Inr (img_io, filename, img_format), calls) \<Rightarrow>
         (Jsonify (JObj [(py ''success'', JBool True),
            (py ''image'', JStr (if img_format = py ''SVG''
                then py ''data:image/svg+xml;base64,'' @ b64encode Q img_io
                else py ''data:image/'' @ str_lower img_format @ py '';base64,'' @ b64encode Q img_io)),
            (py ''filename'', JStr filename)]) 200, calls))"
  using assms
  by (simp add: generate_def io_bind_def io_lift_def io_return_def and_then_def strip_def Let_def
      split: prod.splits sum.splits)

lemma download_run:
  assumes "dict_get data (py ''url'') (JStr []) = Inr (JStr s)" and "str_strip s \<noteq> []"
    and "dict_get data (py ''format'') (JStr (py ''png'')) = Inr output_format"
    and "dict_get data (py ''theme'') JNull = Inr theme"
  shows "download L Q (Inr data) =
    (case generate_qr_code L Q (str_strip s) output_format theme [] of
       (Inl e, calls) \<Rightarrow> (Jsonify (JObj [(py ''error'', JStr (message e))]) 500, calls)
     | (Inr (img_io, filename, img_format), calls) \<Rightarrow>
         (Send_file img_io (if img_format = py ''SVG'' then py ''image/svg+xml''
                            else py ''image/'' @ str_lower img_format) filename, calls))"
  using assms
  by (simp add: download_def io_bind_def io_lift_def io_return_def and_then_def strip_def Let_def
      split: prod.splits sum.splits)

lemma run_prefixes:
  assumes run: "generate_qr_code L Q url output_format theme [] = (r, calls)"
  shows "calls \<noteq> [] \<and> (\<forall>n. 0 < n \<and> n < length calls \<longrightarrow> raises Q (take n calls) = None)
         \<and> (\<forall>e. (r = Inl e) = (raises Q calls = Some e))"
proof -
  consider (styled) "output_format = JStr (py ''styled'')"
    | (svg) "output_format = JStr (py ''svg'')"
    | (jpeg) "output_format = JStr (py ''jpeg'')"
    | (png) "output_format \<noteq> JStr (py ''styled'')" "output_format \<noteq> JStr (py ''svg'')"
        "output_format \<noteq> JStr (py ''jpeg'')"
    by blast
  then show ?thesis
  proof cases
    case styled
    with run show ?thesis
      unfolding styled gen_styled Let_def
      by (auto simp: less_Suc_eq split: option.splits split del: if_split)
  next
    case svg
    with run show ?thesis
      unfolding svg gen_svg Let_def
      by (auto simp: less_Suc_eq split: option.splits split del: if_split)
  next
    case jpeg
    with run show ?thesis
      unfolding jpeg gen_jpeg Let_def
      by (auto simp: less_Suc_eq split: option.splits split del: if_split)
  next
    case png
    with run show ?thesis
      unfolding gen_png[OF png] Let_def
      by (auto simp: less_Suc_eq split: option.splits split del: if_split)
  qed
qed

lemma run_result:
  assumes run: "generate_qr_code L Q url output_format theme [] =
                  (Inr (img_io, filename, img_format), calls)"
  shows "filename =
           (if output_format = JStr (py ''styled'')
            then get_domain_name L url @ py ''_'' @ format_value (py_repr Q) theme @ py ''.png''
            else if output_format = JStr (py ''svg'') then get_domain_name L url @ py ''.svg''
            else if output_format = JStr (py ''jpeg'') then get_domain_name L url @ py ''.jpeg''
            else get_domain_name L url @ py ''.png'')
       \<and> img_format =
           (if output_format = JStr (py ''svg'') then py ''SVG''
            else if output_format = JStr (py ''jpeg'') then py ''JPEG''
            else py ''PNG'')"
proof -
  consider (styled) "output_format = JStr (py ''styled'')"
    | (svg) "output_format = JStr (py ''svg'')"
    | (jpeg) "output_format = JStr (py ''jpeg'')"
    | (png) "output_format \<noteq> JStr (py ''styled'')" "output_format \<noteq> JStr (py ''svg'')"
        "output_format \<noteq> JStr (py ''jpeg'')"
    by blast
  then show ?thesis
  proof cases
    case styled
    with run show ?thesis
      unfolding styled gen_styled Let_def
      by (auto simp: format_names split: option.splits split del: if_split)
  next
    case svg
    with run show ?thesis
      unfolding svg gen_svg Let_def
      by (auto simp: format_names split: option.splits)
  next
    case jpeg
    with run show ?thesis
      unfolding jpeg gen_jpeg Let_def
      by (auto simp: format_names split: option.splits)
  next
    case png
    with run show ?thesis
      unfolding gen_png[OF png] Let_def
      by (auto split: option.splits)
  qed
qed

lemma empty_url_400:
  assumes "map_of members (py ''url'') = None \<or>
           (\<exists>s. map_of members (py ''url'') = Some (JStr s) \<and> str_strip s = [])"
  shows "generate L Q (Inr (JObj members)) =
           (Jsonify (JObj [(py ''error'', JStr (py ''URL is required''))]) 400, [])
       \<and> download L Q (Inr (JObj members)) =
           (Jsonify (JObj [(py ''error'', JStr (py ''URL is required''))]) 400, [])"
proof -
  from assms have "and_then (dict_get (JObj members) (py ''url'') (JStr [])) strip = Inr []"
    by (auto simp: dict_get_def and_then_def strip_def str_strip_Nil)
  then show ?thesis
    by (simp add: generate_def download_def io_bind_def io_lift_def io_return_def dict_get_def)
qed

lemma data_uri_prefix:
  "py ''data:image/svg+xml;base64,'' @ b = py ''data:'' @ py ''image/svg+xml'' @ py '';base64,'' @ b"
  "py ''data:image/'' @ k @ py '';base64,'' @ b = py ''data:'' @ (py ''image/'' @ k) @ py '';base64,'' @ b"
  by (simp_all add: py_def)

lemma example_domain:
  "get_domain_name latin1_lib (py ''example.com'') = py ''example.com''"
  by code_simp

lemma example_strip:
  "str_strip (py ''example.com'') = py ''example.com''"
  "str_strip (py '' example.com '') = py ''example.com''"
  by (simp_all add: str_strip_def is_space_def py_def cp_def)

lemma quiet_lib_simps:
  "raises quiet_lib cs = None" "saved_bytes quiet_lib cs = ''image''"
  "b64encode quiet_lib bs = py ''aW1hZ2U=''" "py_repr quiet_lib v = py ''?''"
  by (simp_all add: quiet_lib_def)

section \<open>Claims on the composition and the handlers\<close>

text \<open>
  C4. A request whose body is a JSON object in which \<open>url\<close> is missing, or is a string
  that is empty after \<open>strip\<close>, is answered by both handlers with status 400 and the
  body \<open>{"error": "URL is required"}\<close>; no library call is made.
\<close>

theorem empty_url_rejected:
  assumes "map_of members (py ''url'') = None \<or>
           (\<exists>s. map_of members (py ''url'') = Some (JStr s) \<and> str_strip s = [])"
  shows "generate L Q (Inr (JObj members)) =
           (Jsonify (JObj [(py ''error'', JStr (py ''URL is required''))]) 400, [])
       \<and> download L Q (Inr (JObj members)) =
           (Jsonify (JObj [(py ''error'', JStr (py ''URL is required''))]) 400, [])"
  using assms by (rule empty_url_400)

theorem empty_url_rejected_witness:
  "generate latin1_lib quiet_lib (Inr (JObj [(py ''url'', JStr (py ''  ''))])) =
     (Jsonify (JObj [(py ''error'', JStr (py ''URL is required''))]) 400, [])
   \<and> download latin1_lib quiet_lib (Inr (JObj [(py ''format'', JStr (py ''svg''))])) =
     (Jsonify (JObj [(py ''error'', JStr (py ''URL is required''))]) 400, [])"
proof -
  have blank: "map_of [(py ''url'', JStr (py ''  ''))] (py ''url'') = None \<or>
      (\<exists>s. map_of [(py ''url'', JStr (py ''  ''))] (py ''url'') = Some (JStr s) \<and> str_strip s = [])"
    by (simp add: str_strip_def is_space_def py_def cp_def)
  have missing: "map_of [(py ''format'', JStr (py ''svg''))] (py ''url'') = None \<or>
      (\<exists>s. map_of [(py ''format'', JStr (py ''svg''))] (py ''url'') = Some (JStr s)
           \<and> str_strip s = [])"
    by (simp add: py_def cp_def)
  from empty_url_rejected[OF blank, of latin1_lib quiet_lib]
    empty_url_rejected[OF missing, of latin1_lib quiet_lib]
  show ?thesis by simp
qed

text \<open>
  C5. In a run of \<open>generate_qr_code\<close> every library call but the last returned, and the
  run raises \<open>e\<close> exactly when its last call raised \<open>e\<close>: nothing is caught on the way.
  Both handlers turn such an exception into status 500 with the body
  \<open>{"error": str(e)}\<close> and nothing else.
\<close>

theorem exceptions_propagate:
  assumes run: "generate_qr_code L Q url output_format theme [] = (r, calls)"
  shows "calls \<noteq> []
       \<and> (\<forall>n. 0 < n \<and> n < length calls \<longrightarrow> raises Q (take n calls) = None)
       \<and> (\<forall>e. (r = Inl e) = (raises Q calls = Some e))
       \<and> (\<forall>e dat s.
            r = Inl e \<and> dict_get dat (py ''url'') (JStr []) = Inr (JStr s) \<and> str_strip s = url
            \<and> url \<noteq> [] \<and> dict_get dat (py ''format'') (JStr (py ''png'')) = Inr output_format
            \<and> dict_get dat (py ''theme'') JNull = Inr theme \<longrightarrow>
            generate L Q (Inr dat) = (Jsonify (JObj [(py ''error'', JStr (message e))]) 500, calls)
            \<and> download L Q (Inr dat) = (Jsonify (JObj [(py ''error'', JStr (message e))]) 500, calls))"
proof -
  have "\<And>e dat s. r = Inl e \<Longrightarrow> dict_get dat (py ''url'') (JStr []) = Inr (JStr s) \<Longrightarrow>
      str_strip s = url \<Longrightarrow> url \<noteq> [] \<Longrightarrow>
      dict_get dat (py ''format'') (JStr (py ''png'')) = Inr output_format \<Longrightarrow>
      dict_get dat (py ''theme'') JNull = Inr theme \<Longrightarrow>
      generate L Q (Inr dat) = (Jsonify (JObj [(py ''error'', JStr (message e))]) 500, calls)
      \<and> download L Q (Inr dat) = (Jsonify (JObj [(py ''error'', JStr (message e))]) 500, calls)"
    using run by (simp add: generate_run download_run)
  with run_prefixes[OF run] show ?thesis
    by blast
qed

theorem exceptions_propagate_witness:
  "generate_qr_code latin1_lib overflow_lib (py ''example.com'') (JStr (py ''png'')) JNull [] =
     (Inl (LibraryError (py ''data overflow'')),
      [QRCode 1 ERROR_CORRECT_L 10 4, Add_data (py ''example.com''), Make True])
   \<and> raises overflow_lib [QRCode 1 ERROR_CORRECT_L 10 4, Add_data (py ''example.com''), Make True] =
       Some (LibraryError (py ''data overflow''))
   \<and> generate latin1_lib overflow_lib (Inr (JObj [(py ''url'', JStr (py '' example.com ''))])) =
       (Jsonify (JObj [(py ''error'', JStr (py ''data overflow''))]) 500,
        [QRCode 1 ERROR_CORRECT_L 10 4, Add_data (py ''example.com''), Make True])
   \<and> download latin1_lib overflow_lib (Inr (JObj [(py ''url'', JStr (py '' example.com ''))])) =
       (Jsonify (JObj [(py ''error'', JStr (py ''data overflow''))]) 500,
        [QRCode 1 ERROR_CORRECT_L 10 4, Add_data (py ''example.com''), Make True])"
proof -
  let ?dat = "JObj [(py ''url'', JStr (py '' example.com ''))]"
  let ?calls = "[QRCode 1 ERROR_CORRECT_L 10 4, Add_data (py ''example.com''), Make True]"
  let ?e = "LibraryError (py ''data overflow'')"
  have run: "generate_qr_code latin1_lib overflow_lib (py ''example.com'') (JStr (py ''png''))
      JNull [] = (Inl ?e, ?calls)"
    by (simp add: gen_png format_names Let_def overflow_lib_def)
  have fields: "dict_get ?dat (py ''url'') (JStr []) = Inr (JStr (py '' example.com ''))"
    "str_strip (py '' example.com '') = py ''example.com''" "py ''example.com'' \<noteq> []"
    "dict_get ?dat (py ''format'') (JStr (py ''png'')) = Inr (JStr (py ''png''))"
    "dict_get ?dat (py ''theme'') JNull = Inr JNull"
    by (simp_all add: example_strip dict_get_def) (simp_all add: py_def cp_def)
  note inst = exceptions_propagate[OF run]
  from inst have "raises overflow_lib ?calls = Some ?e"
    by blast
  moreover from inst fields
  have "generate latin1_lib overflow_lib (Inr ?dat) =
          (Jsonify (JObj [(py ''error'', JStr (message ?e))]) 500, ?calls)
      \<and> download latin1_lib overflow_lib (Inr ?dat) =
          (Jsonify (JObj [(py ''error'', JStr (message ?e))]) 500, ?calls)"
    by blast
  ultimately show ?thesis using run by simp
qed

text \<open>
  C6. A \<open>format\<close> that is none of \<open>styled\<close>, \<open>svg\<close>, \<open>jpeg\<close> behaves as \<open>png\<close>, the plain
  black-on-white PNG with error correction L. For \<open>styled\<close>, a \<open>theme\<close> that is none of
  \<open>matrix\<close>, \<open>cyberpunk\<close>, \<open>terminal\<close> gives the default black-on-white image. When no
  library call raises, neither value raises. A request without \<open>format\<close> is handled as
  one with \<open>format\<close> \<open>png\<close>.
\<close>

theorem unknown_values_fall_back:
  "(output_format \<noteq> JStr (py ''styled'') \<and> output_format \<noteq> JStr (py ''svg'')
      \<and> output_format \<noteq> JStr (py ''jpeg'') \<longrightarrow>
      generate_qr_code L Q url output_format theme = generate_qr_code L Q url (JStr (py ''png'')) theme)
   \<and> ((\<forall>cs. raises Q cs = None) \<longrightarrow>
      generate_qr_code L Q url (JStr (py ''png'')) theme [] =
        (Inr (saved_bytes Q [QRCode 1 ERROR_CORRECT_L 10 4, Add_data url, Make True,
                 Make_image (Fill_back (py ''black'') (py ''white'')), Save (Some (py ''PNG''))],
              get_domain_name L url @ py ''.png'', py ''PNG''),
         [QRCode 1 ERROR_CORRECT_L 10 4, Add_data url, Make True,
          Make_image (Fill_back (py ''black'') (py ''white'')), Save (Some (py ''PNG''))]))
   \<and> (theme \<noteq> JStr (py ''matrix'') \<and> theme \<noteq> JStr (py ''cyberpunk'')
      \<and> theme \<noteq> JStr (py ''terminal'') \<longrightarrow>
      create_styled_qr Q url theme = create_styled_qr Q url JNull
      \<and> ((\<forall>cs. raises Q cs = None) \<longrightarrow>
         generate_qr_code L Q url (JStr (py ''styled'')) theme [] =
           (Inr (saved_bytes Q [QRCode 1 ERROR_CORRECT_H 10 4, Add_data url, Make True,
                    Make_image (Fill_back (py ''black'') (py ''white'')), Save (Some (py ''PNG''))],
                 get_domain_name L url @ py ''_'' @ format_value (py_repr Q) theme @ py ''.png'',
                 py ''PNG''),
            [QRCode 1 ERROR_CORRECT_H 10 4, Add_data url, Make True,
             Make_image (Fill_back (py ''black'') (py ''white'')), Save (Some (py ''PNG''))])))
   \<and> (map_of members (py ''format'') = None \<longrightarrow>
      generate L Q (Inr (JObj members)) =
        generate L Q (Inr (JObj ((py ''format'', JStr (py ''png'')) # members)))
      \<and> download L Q (Inr (JObj members)) =
        download L Q (Inr (JObj ((py ''format'', JStr (py ''png'')) # members))))"
proof (intro conjI impI)
  assume "output_format \<noteq> JStr (py ''styled'') \<and> output_format \<noteq> JStr (py ''svg'')
      \<and> output_format \<noteq> JStr (py ''jpeg'')"
  then show "generate_qr_code L Q url output_format theme =
      generate_qr_code L Q url (JStr (py ''png'')) theme"
    by (simp add: generate_qr_code_def format_names)
next
  assume "\<forall>cs. raises Q cs = None"
  then show "generate_qr_code L Q url (JStr (py ''png'')) theme [] =
        (Inr (saved_bytes Q [QRCode 1 ERROR_CORRECT_L 10 4, Add_data url, Make True,
                 Make_image (Fill_back (py ''black'') (py ''white'')), Save (Some (py ''PNG''))],
              get_domain_name L url @ py ''.png'', py ''PNG''),
         [QRCode 1 ERROR_CORRECT_L 10 4, Add_data url, Make True,
          Make_image (Fill_back (py ''black'') (py ''white'')), Save (Some (py ''PNG''))])"
    by (simp add: gen_png format_names Let_def)
next
  assume "theme \<noteq> JStr (py ''matrix'') \<and> theme \<noteq> JStr (py ''cyberpunk'')
      \<and> theme \<noteq> JStr (py ''terminal'')"
  then show "create_styled_qr Q url theme = create_styled_qr Q url JNull"
    by (simp add: create_styled_qr_def)
next
  assume "theme \<noteq> JStr (py ''matrix'') \<and> theme \<noteq> JStr (py ''cyberpunk'')
      \<and> theme \<noteq> JStr (py ''terminal'')" and "\<forall>cs. raises Q cs = None"
  then show "generate_qr_code L Q url (JStr (py ''styled'')) theme [] =
           (Inr (saved_bytes Q [QRCode 1 ERROR_CORRECT_H 10 4, Add_data url, Make True,
                    Make_image (Fill_back (py ''black'') (py ''white'')), Save (Some (py ''PNG''))],
                 get_domain_name L url @ py ''_'' @ format_value (py_repr Q) theme @ py ''.png'',
                 py ''PNG''),
            [QRCode 1 ERROR_CORRECT_H 10 4, Add_data url, Make True,
             Make_image (Fill_back (py ''black'') (py ''white'')), Save (Some (py ''PNG''))])"
    by (simp add: gen_styled Let_def)
next
  have keys: "py ''url'' \<noteq> py ''format''" "py ''theme'' \<noteq> py ''format''"
    by (simp_all add: py_def cp_def)
  assume absent: "map_of members (py ''format'') = None"
  have added: "dict_get (JObj ((py ''format'', JStr (py ''png'')) # members)) k d =
      (if k = py ''format'' then Inr (JStr (py ''png'')) else dict_get (JObj members) k d)" for k d
    by (simp add: dict_get_def)
  from absent have dflt: "dict_get (JObj members) (py ''format'') (JStr (py ''png'')) =
      Inr (JStr (py ''png''))"
    by (simp add: dict_get_def)
  show "generate L Q (Inr (JObj members)) =
        generate L Q (Inr (JObj ((py ''format'', JStr (py ''png'')) # members)))"
    by (simp add: generate_def io_bind_def io_lift_def added dflt keys)
  show "download L Q (Inr (JObj members)) =
        download L Q (Inr (JObj ((py ''format'', JStr (py ''png'')) # members)))"
    by (simp add: download_def io_bind_def io_lift_def added dflt keys)
qed

theorem unknown_values_fall_back_witness:
  "generate_qr_code latin1_lib quiet_lib (py ''example.com'') (JStr (py ''gif''))
       (JStr (py ''neon'')) [] =
     (Inr (''image'', py ''example.com.png'', py ''PNG''),
      [QRCode 1 ERROR_CORRECT_L 10 4, Add_data (py ''example.com''), Make True,
       Make_image (Fill_back (py ''black'') (py ''white'')), Save (Some (py ''PNG''))])
   \<and> generate_qr_code latin1_lib quiet_lib (py ''example.com'') (JStr (py ''styled''))
       (JStr (py ''neon'')) [] =
     (Inr (''image'', py ''example.com_neon.png'', py ''PNG''),
      [QRCode 1 ERROR_CORRECT_H 10 4, Add_data (py ''example.com''), Make True,
       Make_image (Fill_back (py ''black'') (py ''white'')), Save (Some (py ''PNG''))])
   \<and> generate latin1_lib quiet_lib (Inr (JObj [(py ''url'', JStr (py ''example.com''))])) =
     generate latin1_lib quiet_lib
       (Inr (JObj [(py ''format'', JStr (py ''png'')), (py ''url'', JStr (py ''example.com''))]))"
proof -
  have fmt: "JStr (py ''gif'') \<noteq> JStr (py ''styled'') \<and> JStr (py ''gif'') \<noteq> JStr (py ''svg'')
      \<and> JStr (py ''gif'') \<noteq> JStr (py ''jpeg'')"
    by (simp add: py_def cp_def)
  have thme: "JStr (py ''neon'') \<noteq> JStr (py ''matrix'') \<and> JStr (py ''neon'') \<noteq> JStr (py ''cyberpunk'')
      \<and> JStr (py ''neon'') \<noteq> JStr (py ''terminal'')"
    by (simp add: py_def cp_def)
  have quiet: "\<forall>cs. raises quiet_lib cs = None"
    by (simp add: quiet_lib_def)
  have absent: "map_of [(py ''url'', JStr (py ''example.com''))] (py ''format'') = None"
    by (simp add: py_def cp_def)
  note dom = example_domain
  note bytes = quiet_lib_simps(2)
  have names: "py ''example.com'' @ py ''.png'' = py ''example.com.png''"
    "py ''example.com'' @ py ''_'' @ format_value (py_repr quiet_lib) (JStr (py ''neon'')) @ py ''.png''
       = py ''example.com_neon.png''"
    by (simp_all add: py_def format_value_def)
  note inst = unknown_values_fall_back[of "JStr (py ''gif'')" latin1_lib quiet_lib
      "py ''example.com''" "JStr (py ''neon'')" "[(py ''url'', JStr (py ''example.com''))]"]
  from inst fmt quiet
  have "generate_qr_code latin1_lib quiet_lib (py ''example.com'') (JStr (py ''gif''))
          (JStr (py ''neon'')) [] =
        (Inr (''image'', py ''example.com.png'', py ''PNG''),
         [QRCode 1 ERROR_CORRECT_L 10 4, Add_data (py ''example.com''), Make True,
          Make_image (Fill_back (py ''black'') (py ''white'')), Save (Some (py ''PNG''))])"
    by (simp add: dom bytes names)
  moreover from inst thme quiet
  have "generate_qr_code latin1_lib quiet_lib (py ''example.com'') (JStr (py ''styled''))
          (JStr (py ''neon'')) [] =
        (Inr (''image'', py ''example.com_neon.png'', py ''PNG''),
         [QRCode 1 ERROR_CORRECT_H 10 4, Add_data (py ''example.com''), Make True,
          Make_image (Fill_back (py ''black'') (py ''white'')), Save (Some (py ''PNG''))])"
    by (simp add: dom bytes names)
  moreover from inst absent
  have "generate latin1_lib quiet_lib (Inr (JObj [(py ''url'', JStr (py ''example.com''))])) =
     generate latin1_lib quiet_lib
       (Inr (JObj [(py ''format'', JStr (py ''png'')), (py ''url'', JStr (py ''example.com''))]))"
    by blast
  ultimately show ?thesis by simp
qed

text \<open>
  C7. A successful composition returns the file name \<open>{domain}_{theme}.png\<close> for
  \<open>styled\<close>, where the text of the theme is the theme itself when it is a string,
  \<open>None\<close>, \<open>True\<close> or \<open>False\<close> by name, and the runtime's \<open>repr\<close> of a number, list or
  dict; and \<open>{domain}.svg\<close>, \<open>{domain}.jpeg\<close>, \<open>{domain}.png\<close> otherwise, with the image
  format SVG, JPEG or PNG of the same container.
\<close>

theorem filename_by_format:
  assumes run: "generate_qr_code L Q url output_format theme [] =
                  (Inr (img_io, filename, img_format), calls)"
  shows "filename =
           (if output_format = JStr (py ''styled'')
            then get_domain_name L url @ py ''_'' @
                 (case theme of
                    JStr t \<Rightarrow> t
                  | JNull \<Rightarrow> py ''None''
                  | JBool b \<Rightarrow> (if b then py ''True'' else py ''False'')
                  | JInt n \<Rightarrow> py_repr Q (JInt n)
                  | JFloat x \<Rightarrow> py_repr Q (JFloat x)
                  | JArr vs \<Rightarrow> py_repr Q (JArr vs)
                  | JObj ms \<Rightarrow> py_repr Q (JObj ms)) @ py ''.png''
            else if output_format = JStr (py ''svg'') then get_domain_name L url @ py ''.svg''
            else if output_format = JStr (py ''jpeg'') then get_domain_name L url @ py ''.jpeg''
            else get_domain_name L url @ py ''.png'')
       \<and> img_format =
           (if output_format = JStr (py ''svg'') then py ''SVG''
            else if output_format = JStr (py ''jpeg'') then py ''JPEG''
            else py ''PNG'')"
proof -
  have theme_text: "format_value (py_repr Q) theme =
      (case theme of
         JStr t \<Rightarrow> t
       | JNull \<Rightarrow> py ''None''
       | JBool b \<Rightarrow> (if b then py ''True'' else py ''False'')
       | JInt n \<Rightarrow> py_repr Q (JInt n)
       | JFloat x \<Rightarrow> py_repr Q (JFloat x)
       | JArr vs \<Rightarrow> py_repr Q (JArr vs)
       | JObj ms \<Rightarrow> py_repr Q (JObj ms))"
    by (simp add: format_value_def split: json.splits)
  from run_result[OF run] show ?thesis
    by (simp only: theme_text)
qed

theorem filename_by_format_witness:
  "generate_qr_code latin1_lib quiet_lib (py ''example.com'') (JStr (py ''styled''))
       (JStr (py ''matrix'')) [] =
     (Inr (''image'', py ''example.com_matrix.png'', py ''PNG''),
      [QRCode 1 ERROR_CORRECT_H 10 4, Add_data (py ''example.com''), Make True,
       Make_image (StyledPilImage RoundedModuleDrawer (SolidFillColorMask (0, 0, 0) (0, 255, 65))),
       Save (Some (py ''PNG''))])
   \<and> py ''example.com_matrix.png'' =
       get_domain_name latin1_lib (py ''example.com'') @ py ''_'' @ py ''matrix'' @ py ''.png''
   \<and> generate_qr_code latin1_lib quiet_lib (py ''example.com'') (JStr (py ''jpeg'')) JNull [] =
     (Inr (''image'', py ''example.com.jpeg'', py ''JPEG''),
      [QRCode 1 ERROR_CORRECT_L 10 4, Add_data (py ''example.com''), Make True,
       Make_image (Fill_back (py ''black'') (py ''white'')), Convert (py ''RGB''),
       Save (Some (py ''JPEG''))])
   \<and> py ''example.com.jpeg'' = get_domain_name latin1_lib (py ''example.com'') @ py ''.jpeg''
   \<and> generate_qr_code latin1_lib quiet_lib (py ''example.com'') (JStr (py ''svg'')) JNull [] =
     (Inr (''image'', py ''example.com.svg'', py ''SVG''),
      [QRCode 1 ERROR_CORRECT_L 10 4, Add_data (py ''example.com''), Make True,
       Make_image SvgPathImage, Save None])
   \<and> py ''example.com.svg'' = get_domain_name latin1_lib (py ''example.com'') @ py ''.svg''
   \<and> generate_qr_code latin1_lib quiet_lib (py ''example.com'') (JStr (py ''png'')) JNull [] =
     (Inr (''image'', py ''example.com.png'', py ''PNG''),
      [QRCode 1 ERROR_CORRECT_L 10 4, Add_data (py ''example.com''), Make True,
       Make_image (Fill_back (py ''black'') (py ''white'')), Save (Some (py ''PNG''))])
   \<and> py ''example.com.png'' = get_domain_name latin1_lib (py ''example.com'') @ py ''.png''"
proof -
  have styled: "generate_qr_code latin1_lib quiet_lib (py ''example.com'') (JStr (py ''styled''))
       (JStr (py ''matrix'')) [] =
     (Inr (''image'', py ''example.com_matrix.png'', py ''PNG''),
      [QRCode 1 ERROR_CORRECT_H 10 4, Add_data (py ''example.com''), Make True,
       Make_image (StyledPilImage RoundedModuleDrawer (SolidFillColorMask (0, 0, 0) (0, 255, 65))),
       Save (Some (py ''PNG''))])"
    by (simp add: gen_styled Let_def quiet_lib_simps example_domain format_value_def)
       (simp add: py_def)
  have jpeg: "generate_qr_code latin1_lib quiet_lib (py ''example.com'') (JStr (py ''jpeg'')) JNull [] =
     (Inr (''image'', py ''example.com.jpeg'', py ''JPEG''),
      [QRCode 1 ERROR_CORRECT_L 10 4, Add_data (py ''example.com''), Make True,
       Make_image (Fill_back (py ''black'') (py ''white'')), Convert (py ''RGB''),
       Save (Some (py ''JPEG''))])"
    by (simp add: gen_jpeg Let_def quiet_lib_simps example_domain)
       (simp add: py_def)
  have svg: "generate_qr_code latin1_lib quiet_lib (py ''example.com'') (JStr (py ''svg'')) JNull [] =
     (Inr (''image'', py ''example.com.svg'', py ''SVG''),
      [QRCode 1 ERROR_CORRECT_L 10 4, Add_data (py ''example.com''), Make True,
       Make_image SvgPathImage, Save None])"
    by (simp add: gen_svg Let_def quiet_lib_simps example_domain)
       (simp add: py_def)
  have png: "generate_qr_code latin1_lib quiet_lib (py ''example.com'') (JStr (py ''png'')) JNull [] =
     (Inr (''image'', py ''example.com.png'', py ''PNG''),
      [QRCode 1 ERROR_CORRECT_L 10 4, Add_data (py ''example.com''), Make True,
       Make_image (Fill_back (py ''black'') (py ''white'')), Save (Some (py ''PNG''))])"
    by (simp add: gen_png format_names Let_def quiet_lib_simps example_domain)
       (simp add: py_def)
  from filename_by_format[OF styled]
  have a: "py ''example.com_matrix.png'' =
       get_domain_name latin1_lib (py ''example.com'') @ py ''_'' @ py ''matrix'' @ py ''.png''"
    by simp
  from filename_by_format[OF jpeg]
  have b: "py ''example.com.jpeg'' = get_domain_name latin1_lib (py ''example.com'') @ py ''.jpeg''"
    by (simp add: format_names)
  from filename_by_format[OF svg]
  have c: "py ''example.com.svg'' = get_domain_name latin1_lib (py ''example.com'') @ py ''.svg''"
    by (simp add: format_names)
  from filename_by_format[OF png]
  have d: "py ''example.com.png'' = get_domain_name latin1_lib (py ''example.com'') @ py ''.png''"
    by (simp add: format_names)
  from styled jpeg svg png a b c d show ?thesis
    by (simp only: simp_thms)
qed

text \<open>
  C8. Every run constructs the encoder first, with version 1, box size 10, border 4 and
  error correction H for \<open>styled\<close>, L otherwise; no other construction occurs, every
  \<open>make\<close> has \<open>fit=True\<close>, and a successful run starts with the construction, \<open>add_data\<close>
  of the URL and \<open>make(fit=True)\<close>.
\<close>

theorem encoder_configuration:
  assumes run: "generate_qr_code L Q url output_format theme [] = (r, calls)"
  shows "calls \<noteq> []
       \<and> hd calls = QRCode 1 (if output_format = JStr (py ''styled'') then ERROR_CORRECT_H
                               else ERROR_CORRECT_L) 10 4
       \<and> (\<forall>v e b d. QRCode v e b d \<in> set calls \<longrightarrow>
             v = 1 \<and> b = 10 \<and> d = 4 \<and>
             e = (if output_format = JStr (py ''styled'') then ERROR_CORRECT_H else ERROR_CORRECT_L))
       \<and> (\<forall>f. Make f \<in> set calls \<longrightarrow> f)
       \<and> ((\<exists>v. r = Inr v) \<longrightarrow>
             take 3 calls =
               [QRCode 1 (if output_format = JStr (py ''styled'') then ERROR_CORRECT_H
                          else ERROR_CORRECT_L) 10 4,
                Add_data url, Make True])"
proof -
  consider (styled) "output_format = JStr (py ''styled'')"
    | (svg) "output_format = JStr (py ''svg'')"
    | (jpeg) "output_format = JStr (py ''jpeg'')"
    | (png) "output_format \<noteq> JStr (py ''styled'')" "output_format \<noteq> JStr (py ''svg'')"
        "output_format \<noteq> JStr (py ''jpeg'')"
    by blast
  then show ?thesis
  proof cases
    case styled
    with run show ?thesis
      unfolding styled gen_styled Let_def
      by (auto simp: format_names split: option.splits split del: if_split)
  next
    case svg
    with run show ?thesis
      unfolding svg gen_svg Let_def
      by (auto simp: format_names split: option.splits)
  next
    case jpeg
    with run show ?thesis
      unfolding jpeg gen_jpeg Let_def
      by (auto simp: format_names split: option.splits)
  next
    case png
    with run show ?thesis
      unfolding gen_png[OF png] Let_def
      by (auto split: option.splits)
  qed
qed

theorem encoder_configuration_witness:
  "generate_qr_code latin1_lib quiet_lib (py ''example.com'') (JStr (py ''styled''))
       (JStr (py ''matrix'')) [] =
     (Inr (''image'', py ''example.com_matrix.png'', py ''PNG''),
      [QRCode 1 ERROR_CORRECT_H 10 4, Add_data (py ''example.com''), Make True,
       Make_image (StyledPilImage RoundedModuleDrawer (SolidFillColorMask (0, 0, 0) (0, 255, 65))),
       Save (Some (py ''PNG''))])
   \<and> hd [QRCode 1 ERROR_CORRECT_H 10 4, Add_data (py ''example.com''), Make True,
       Make_image (StyledPilImage RoundedModuleDrawer (SolidFillColorMask (0, 0, 0) (0, 255, 65))),
       Save (Some (py ''PNG''))] = QRCode 1 ERROR_CORRECT_H 10 4"
proof -
  let ?calls = "[QRCode 1 ERROR_CORRECT_H 10 4, Add_data (py ''example.com''), Make True,
       Make_image (StyledPilImage RoundedModuleDrawer (SolidFillColorMask (0, 0, 0) (0, 255, 65))),
       Save (Some (py ''PNG''))]"
  have run: "generate_qr_code latin1_lib quiet_lib (py ''example.com'') (JStr (py ''styled''))
       (JStr (py ''matrix'')) [] =
     (Inr (''image'', py ''example.com_matrix.png'', py ''PNG''), ?calls)"
    by (simp add: gen_styled Let_def quiet_lib_simps example_domain format_value_def)
       (simp add: py_def)
  from encoder_configuration[OF run]
  have "hd ?calls = QRCode 1 ERROR_CORRECT_H 10 4"
    by simp
  with run show ?thesis by simp
qed

text \<open>
  C9. For a composition that succeeds with image format \<open>img_format\<close>, the mimetype
  \<open>download\<close> sends is \<open>image/svg+xml\<close> for SVG and \<open>image/\<close> with the lowered format
  otherwise, and it is the media type between \<open>data:\<close> and \<open>;base64,\<close> in the data
  URI of \<open>generate\<close>.
\<close>

theorem same_media_type:
  assumes "dict_get dat (py ''url'') (JStr []) = Inr (JStr s)" and "str_strip s \<noteq> []"
    and "dict_get dat (py ''format'') (JStr (py ''png'')) = Inr output_format"
    and "dict_get dat (py ''theme'') JNull = Inr theme"
    and run: "generate_qr_code L Q (str_strip s) output_format theme [] =
                (Inr (img_io, filename, img_format), calls)"
  shows "(let mimetype = (if img_format = py ''SVG'' then py ''image/svg+xml''
                          else py ''image/'' @ str_lower img_format)
          in download L Q (Inr dat) = (Send_file img_io mimetype filename, calls)
           \<and> generate L Q (Inr dat) =
               (Jsonify (JObj [(py ''success'', JBool True),
                  (py ''image'', JStr (py ''data:'' @ mimetype @ py '';base64,'' @ b64encode Q img_io)),
                  (py ''filename'', JStr filename)]) 200, calls))
       \<and> (img_format = py ''PNG'' \<or> img_format = py ''JPEG'' \<or> img_format = py ''SVG'')"
proof -
  from run_result[OF run]
  have "img_format = py ''PNG'' \<or> img_format = py ''JPEG'' \<or> img_format = py ''SVG''"
    by (simp split: if_splits)
  then show ?thesis
    using run by (simp add: generate_run[OF assms(1-4)] download_run[OF assms(1-4)] Let_def
        data_uri_prefix)
qed

theorem same_media_type_witness:
  "download latin1_lib quiet_lib
     (Inr (JObj [(py ''url'', JStr (py ''example.com'')), (py ''format'', JStr (py ''svg''))])) =
     (Send_file ''image'' (py ''image/svg+xml'') (py ''example.com.svg''),
      [QRCode 1 ERROR_CORRECT_L 10 4, Add_data (py ''example.com''), Make True,
       Make_image SvgPathImage, Save None])
   \<and> generate latin1_lib quiet_lib
     (Inr (JObj [(py ''url'', JStr (py ''example.com'')), (py ''format'', JStr (py ''svg''))])) =
     (Jsonify (JObj [(py ''success'', JBool True),
        (py ''image'', JStr (py ''data:'' @ py ''image/svg+xml'' @ py '';base64,'' @ py ''aW1hZ2U='')),
        (py ''filename'', JStr (py ''example.com.svg''))]) 200,
      [QRCode 1 ERROR_CORRECT_L 10 4, Add_data (py ''example.com''), Make True,
       Make_image SvgPathImage, Save None])"
proof -
  let ?dat = "JObj [(py ''url'', JStr (py ''example.com'')), (py ''format'', JStr (py ''svg''))]"
  have fields: "dict_get ?dat (py ''url'') (JStr []) = Inr (JStr (py ''example.com''))"
    "str_strip (py ''example.com'') \<noteq> []"
    "dict_get ?dat (py ''format'') (JStr (py ''png'')) = Inr (JStr (py ''svg''))"
    "dict_get ?dat (py ''theme'') JNull = Inr JNull"
    by (simp_all add: example_strip dict_get_def) (simp_all add: py_def cp_def)
  have run: "generate_qr_code latin1_lib quiet_lib (str_strip (py ''example.com''))
      (JStr (py ''svg'')) JNull [] =
     (Inr (''image'', py ''example.com.svg'', py ''SVG''),
      [QRCode 1 ERROR_CORRECT_L 10 4, Add_data (py ''example.com''), Make True,
       Make_image SvgPathImage, Save None])"
    by (simp add: example_strip gen_svg Let_def quiet_lib_simps example_domain)
       (simp add: py_def)
  have b64: "b64encode quiet_lib ''image'' = py ''aW1hZ2U=''"
    by (simp add: quiet_lib_def)
  from same_media_type[OF fields run] show ?thesis
    by (simp add: Let_def b64)
qed

text \<open>
  C10. With \<open>format\<close> \<open>styled\<close>, the file name \<open>generate\<close> returns holds the theme as the
  client sent it: \<open>None\<close> when the request has no \<open>theme\<close>, and any string unchanged,
  without the replacement \<open>get_domain_name\<close> applies to the domain.
\<close>

theorem theme_verbatim_in_filename:
  assumes "map_of members (py ''url'') = Some (JStr s)"
    and "map_of members (py ''format'') = Some (JStr (py ''styled''))"
    and ok: "generate L Q (Inr (JObj members)) = (Jsonify (JObj body) 200, calls)"
  shows "(map_of members (py ''theme'') = None \<longrightarrow>
            map_of body (py ''filename'') =
              Some (JStr (get_domain_name L (str_strip s) @ py ''_None.png'')))
       \<and> (\<forall>t. map_of members (py ''theme'') = Some (JStr t) \<longrightarrow>
            map_of body (py ''filename'') =
              Some (JStr (get_domain_name L (str_strip s) @ py ''_'' @ t @ py ''.png'')))"
proof -
  have keys: "py ''filename'' \<noteq> py ''success''" "py ''filename'' \<noteq> py ''image''"
    "py ''_'' @ py ''None'' @ py ''.png'' = py ''_None.png''"
    by (simp_all add: py_def cp_def)
  have nonempty: "str_strip s \<noteq> []"
  proof
    assume "str_strip s = []"
    with assms(1) have "generate L Q (Inr (JObj members)) =
        (Jsonify (JObj [(py ''error'', JStr (py ''URL is required''))]) 400, [])"
      using empty_url_400[of members L Q] by blast
    with ok show False by simp
  qed
  have fields: "dict_get (JObj members) (py ''url'') (JStr []) = Inr (JStr s)"
    "dict_get (JObj members) (py ''format'') (JStr (py ''png'')) = Inr (JStr (py ''styled''))"
    "dict_get (JObj members) (py ''theme'') JNull =
       Inr (case map_of members (py ''theme'') of None \<Rightarrow> JNull | Some v \<Rightarrow> v)"
    using assms(1,2) by (simp_all add: dict_get_def)
  let ?theme = "case map_of members (py ''theme'') of None \<Rightarrow> JNull | Some v \<Rightarrow> v"
  obtain r calls' where run: "generate_qr_code L Q (str_strip s) (JStr (py ''styled'')) ?theme [] = (r, calls')"
    by (cases "generate_qr_code L Q (str_strip s) (JStr (py ''styled'')) ?theme []") auto
  from ok obtain img_io filename img_format where r: "r = Inr (img_io, filename, img_format)"
    and body: "map_of body (py ''filename'') = Some (JStr filename)"
    unfolding generate_run[OF fields(1) nonempty fields(2,3)] run
    by (cases r) (auto simp: keys split: prod.splits)
  from run_result[OF run[unfolded r]]
  have "filename = get_domain_name L (str_strip s) @ py ''_'' @ format_value (py_repr Q) ?theme @ py ''.png''"
    by simp
  with body show ?thesis
    by (auto simp: format_value_def keys)
qed

theorem theme_verbatim_in_filename_witness:
  "generate latin1_lib quiet_lib
     (Inr (JObj [(py ''url'', JStr (py ''example.com'')), (py ''format'', JStr (py ''styled'')),
                 (py ''theme'', JStr (py ''../x y''))])) =
     (Jsonify (JObj [(py ''success'', JBool True),
        (py ''image'', JStr (py ''data:image/png;base64,aW1hZ2U='')),
        (py ''filename'', JStr (py ''example.com_../x y.png''))]) 200,
      [QRCode 1 ERROR_CORRECT_H 10 4, Add_data (py ''example.com''), Make True,
       Make_image (Fill_back (py ''black'') (py ''white'')), Save (Some (py ''PNG''))])
   \<and> py ''example.com_../x y.png'' =
       get_domain_name latin1_lib (str_strip (py ''example.com'')) @ py ''_'' @ py ''../x y'' @ py ''.png''
   \<and> map_of [(py ''success'', JBool True),
        (py ''image'', JStr (py ''data:image/png;base64,aW1hZ2U='')),
        (py ''filename'', JStr (py ''example.com_None.png''))] (py ''filename'') =
       Some (JStr (get_domain_name latin1_lib (str_strip (py ''example.com'')) @ py ''_None.png''))"
proof -
  let ?m1 = "[(py ''url'', JStr (py ''example.com'')), (py ''format'', JStr (py ''styled'')),
              (py ''theme'', JStr (py ''../x y''))]"
  let ?b1 = "[(py ''success'', JBool True),
        (py ''image'', JStr (py ''data:image/png;base64,aW1hZ2U='')),
        (py ''filename'', JStr (py ''example.com_../x y.png''))]"
  let ?m2 = "[(py ''url'', JStr (py ''example.com'')), (py ''format'', JStr (py ''styled''))]"
  let ?b2 = "[(py ''success'', JBool True),
        (py ''image'', JStr (py ''data:image/png;base64,aW1hZ2U='')),
        (py ''filename'', JStr (py ''example.com_None.png''))]"
  let ?calls = "[QRCode 1 ERROR_CORRECT_H 10 4, Add_data (py ''example.com''), Make True,
       Make_image (Fill_back (py ''black'') (py ''white'')), Save (Some (py ''PNG''))]"
  have keys: "py ''format'' \<noteq> py ''url''" "py ''theme'' \<noteq> py ''url''"
    "py ''theme'' \<noteq> py ''format''" "py ''filename'' \<noteq> py ''success''"
    "py ''filename'' \<noteq> py ''image''"
    by (simp_all add: py_def cp_def)
  have f1: "map_of ?m1 (py ''url'') = Some (JStr (py ''example.com''))"
    "map_of ?m1 (py ''format'') = Some (JStr (py ''styled''))"
    "map_of ?m1 (py ''theme'') = Some (JStr (py ''../x y''))"
    "map_of ?b1 (py ''filename'') = Some (JStr (py ''example.com_../x y.png''))"
    by (simp_all add: keys)
  have f2: "map_of ?m2 (py ''url'') = Some (JStr (py ''example.com''))"
    "map_of ?m2 (py ''format'') = Some (JStr (py ''styled''))"
    "map_of ?m2 (py ''theme'') = None"
    by (simp_all add: keys)
  have other: "py ''../x y'' \<noteq> py ''matrix''" "py ''../x y'' \<noteq> py ''cyberpunk''"
    "py ''../x y'' \<noteq> py ''terminal''"
    by (simp_all add: py_def cp_def)
  have texts: "py ''data:image/'' @ py ''png'' @ py '';base64,'' @ py ''aW1hZ2U='' =
      py ''data:image/png;base64,aW1hZ2U=''"
    "py ''example.com'' @ py ''_'' @ py ''../x y'' @ py ''.png'' = py ''example.com_../x y.png''"
    "py ''example.com'' @ py ''_'' @ py ''None'' @ py ''.png'' = py ''example.com_None.png''"
    by (simp_all add: py_def)
  have run1: "generate_qr_code latin1_lib quiet_lib (py ''example.com'') (JStr (py ''styled''))
      (JStr (py ''../x y'')) [] =
      (Inr (''image'', py ''example.com_../x y.png'', py ''PNG''), ?calls)"
    by (simp add: gen_styled Let_def quiet_lib_simps example_domain format_value_def other texts)
  have run2: "generate_qr_code latin1_lib quiet_lib (py ''example.com'') (JStr (py ''styled''))
      JNull [] = (Inr (''image'', py ''example.com_None.png'', py ''PNG''), ?calls)"
    by (simp add: gen_styled Let_def quiet_lib_simps example_domain format_value_def texts)
  have ne: "str_strip (py ''example.com'') \<noteq> []"
    by (simp add: example_strip) (simp add: py_def)
  have d1: "dict_get (JObj ?m1) (py ''url'') (JStr []) = Inr (JStr (py ''example.com''))"
    "dict_get (JObj ?m1) (py ''format'') (JStr (py ''png'')) = Inr (JStr (py ''styled''))"
    "dict_get (JObj ?m1) (py ''theme'') JNull = Inr (JStr (py ''../x y''))"
    by (simp_all add: dict_get_def keys)
  have d2: "dict_get (JObj ?m2) (py ''url'') (JStr []) = Inr (JStr (py ''example.com''))"
    "dict_get (JObj ?m2) (py ''format'') (JStr (py ''png'')) = Inr (JStr (py ''styled''))"
    "dict_get (JObj ?m2) (py ''theme'') JNull = Inr JNull"
    by (simp_all add: dict_get_def keys)
  have lower: "str_lower (py ''PNG'') = py ''png''" "py ''PNG'' \<noteq> py ''SVG''"
    by (simp_all add: format_names)
  have ok1: "generate latin1_lib quiet_lib (Inr (JObj ?m1)) = (Jsonify (JObj ?b1) 200, ?calls)"
    unfolding generate_run[OF d1(1) ne d1(2,3)] example_strip run1
    by (simp add: lower quiet_lib_simps texts)
  have ok2: "generate latin1_lib quiet_lib (Inr (JObj ?m2)) = (Jsonify (JObj ?b2) 200, ?calls)"
    unfolding generate_run[OF d2(1) ne d2(2,3)] example_strip run2
    by (simp add: lower quiet_lib_simps texts)
  from theme_verbatim_in_filename[OF f1(1,2) ok1] f1(3,4)
  have "py ''example.com_../x y.png'' =
       get_domain_name latin1_lib (str_strip (py ''example.com'')) @ py ''_'' @ py ''../x y'' @ py ''.png''"
    by simp
  moreover from theme_verbatim_in_filename[OF f2(1,2) ok2] f2(3)
  have "map_of ?b2 (py ''filename'') =
       Some (JStr (get_domain_name latin1_lib (str_strip (py ''example.com'')) @ py ''_None.png''))"
    by blast
  ultimately show ?thesis using ok1 by simp
qed

end
